theory Spec2Isabelle
  imports Complex_Main "HOL-Library.Log_Nat"
begin

section \<open>Float columns\<close>

text \<open>
  A cell of a float64 column is either missing (\<open>NaN\<close>) or a number: a finite double,
  modelled by the real it denotes. Comparisons of doubles are exact. The only arithmetic
  of \<open>apply_strategy\<close> is one subtraction and one absolute value; the subtraction rounds
  its exact result to a double, the absolute value is exact. Signed zeros and the IEEE
  infinities are outside this model.
\<close>

datatype pyfloat = NaN | Num real

subsection \<open>Rounding to a double\<close>

text \<open>The integer nearest to a real, a tie going to the even one.\<close>

definition nearest_even :: "real \<Rightarrow> int" where
  "nearest_even x =
     (let f = \<lfloor>x\<rfloor>; d = x - of_int f in
      if d < 1 / 2 then f
      else if d > 1 / 2 then f + 1
      else if even f then f else f + 1)"

text \<open>
  The binary exponent of a positive real \<open>a\<close>: the \<open>e\<close> with
  \<open>2 powi e \<le> a < 2 powi (e + 1)\<close>, computed from the number of bits of \<open>\<lfloor>a\<rfloor>\<close>,
  or of \<open>\<lceil>1 / a\<rceil> - 1\<close> below one.
\<close>

definition float_exponent :: "real \<Rightarrow> int" where
  "float_exponent a =
     (if 1 \<le> a then bitlen \<lfloor>a\<rfloor> - 1
      else - bitlen (\<lceil>1 / a\<rceil> - 1))"

text \<open>
  IEEE 754 binary64 rounding, to the nearest with ties to even: a real is rounded to a
  multiple of the unit in the last place of its binade, a significand having 53 bits and
  the exponent being at least -1022 (below, the spacing stays \<open>2 powi - 1074\<close>). A
  result beyond the largest double, which IEEE arithmetic turns into an infinity, is
  outside the model.
\<close>

definition round_double :: "real \<Rightarrow> real" where
  "round_double x =
     (if x = 0 then 0
      else let e = max (float_exponent \<bar>x\<bar>) (- 1022); ulp = 2 powi (e - 52)
           in of_int (nearest_even (x / ulp)) * ulp)"

text \<open>The float64 difference of two doubles: the exact difference, rounded.\<close>

definition float_sub :: "real \<Rightarrow> real \<Rightarrow> real" where
  "float_sub x y = round_double (x - y)"

subsection \<open>Series operations\<close>

text \<open>Elementwise comparison of pandas Series: any comparison with NaN is False.\<close>

fun le_f :: "pyfloat \<Rightarrow> pyfloat \<Rightarrow> bool" where
  "le_f (Num x) (Num y) = (x \<le> y)"
| "le_f _ _ = False"

fun ge_f :: "pyfloat \<Rightarrow> pyfloat \<Rightarrow> bool" where
  "ge_f (Num x) (Num y) = (x \<ge> y)"
| "ge_f _ _ = False"

fun lt_f :: "pyfloat \<Rightarrow> pyfloat \<Rightarrow> bool" where
  "lt_f (Num x) (Num y) = (x < y)"
| "lt_f _ _ = False"

fun gt_f :: "pyfloat \<Rightarrow> pyfloat \<Rightarrow> bool" where
  "gt_f (Num x) (Num y) = (x > y)"
| "gt_f _ _ = False"

text \<open>\<^verbatim>\<open>Series.between(left, right)\<close> with the default \<^verbatim>\<open>inclusive="both"\<close>:
  \<^verbatim>\<open>(self >= left) & (self <= right)\<close>.\<close>

definition between :: "pyfloat \<Rightarrow> real \<Rightarrow> real \<Rightarrow> bool" where
  "between x left right = (ge_f x (Num left) \<and> le_f x (Num right))"

text \<open>Subtraction (in float64) and \<^verbatim>\<open>.abs()\<close>: NaN propagates.\<close>

fun sub_f :: "pyfloat \<Rightarrow> pyfloat \<Rightarrow> pyfloat" where
  "sub_f (Num x) (Num y) = Num (float_sub x y)"
| "sub_f _ _ = NaN"

fun abs_f :: "pyfloat \<Rightarrow> pyfloat" where
  "abs_f (Num x) = Num \<bar>x\<bar>"
| "abs_f NaN = NaN"

definition isna :: "pyfloat \<Rightarrow> bool" where
  "isna x = (x = NaN)"

section \<open>The data frames of app.py\<close>

text \<open>
  A DataFrame is the list of its rows; a row is a record of its columns. The columns are
  added in stages, as the script adds them: the downloaded bar, the indicator columns of
  \<open>add_indicators\<close>, the \<open>Stock\<close> tag of the pipeline loop, the four flags of
  \<open>apply_strategy\<close>. A bar has the columns of the download after \<^verbatim>\<open>reset_index()\<close>: the
  timestamp (a day number and the seconds since midnight, or missing: NaT) and, the
  download being made with \<^verbatim>\<open>auto_adjust=False\<close>, the adjusted close beside the five
  columns the script names.
\<close>

record bar =
  Datetime :: "(nat \<times> nat) option"
  Adj_Close :: pyfloat
  Close :: pyfloat
  High :: pyfloat
  Low :: pyfloat
  Open :: pyfloat
  Volume :: pyfloat

record indicators =
  BB60 :: pyfloat
  BB105 :: pyfloat
  BB150 :: pyfloat
  RSI20 :: pyfloat
  WILLR28 :: pyfloat
  DI6_pos :: pyfloat
  DI6_neg :: pyfloat
  DI20_pos :: pyfloat
  DI20_neg :: pyfloat
  MA8 :: pyfloat

record indrow =
  Bar :: bar
  Ind :: indicators
  Stock :: string

record sigrow =
  Row :: indrow
  CALL_ENTRY :: bool
  PUT_ENTRY :: bool
  CALL_EXIT :: bool
  PUT_EXIT :: bool

definition MIN_BARS :: nat where
  "MIN_BARS = 160"

datatype pipeline_error = NoValidData

subsection \<open>fetch_data\<close>

text \<open>
  \<open>download\<close> stands for \<^verbatim>\<open>yf.download(symbol, period="5d", interval="5m")\<close>, the
  external price collaborator; a cell it could not parse is NaN after
  \<^verbatim>\<open>pd.to_numeric(errors="coerce")\<close>. \<^verbatim>\<open>dropna()\<close> has no subset: it removes every
  row with a missing cell in any column.
\<close>

definition bar_has_na :: "bar \<Rightarrow> bool" where
  "bar_has_na b =
     (Datetime b = None \<or> isna (Adj_Close b) \<or> isna (Close b) \<or> isna (High b) \<or> isna (Low b)
      \<or> isna (Open b) \<or> isna (Volume b))"

definition dropna :: "bar list \<Rightarrow> bar list" where
  "dropna df = filter (\<lambda>b. \<not> bar_has_na b) df"

definition fetch_data :: "(string \<Rightarrow> bar list) \<Rightarrow> string \<Rightarrow> bar list option" where
  "fetch_data download symbol =
     (let df = download symbol in
      if df = [] then None else Some (dropna df))"

subsection \<open>add_indicators\<close>

text \<open>
  The indicator values are computed by the \<^verbatim>\<open>ta\<close> library from the close, high and low
  series; \<open>ta df i\<close> stands for the ten values it yields for row \<open>i\<close> of \<open>df\<close>.
  \<open>add_indicators\<close> copies the frame and assigns the new columns, so the result has the
  rows of its argument, in order.
\<close>

definition add_indicators :: "(bar list \<Rightarrow> nat \<Rightarrow> indicators) \<Rightarrow> bar list \<Rightarrow> (bar \<times> indicators) list" where
  "add_indicators ta df = map (\<lambda>i. (df ! i, ta df i)) [0..<length df]"

subsection \<open>apply_strategy\<close>

definition call_entry :: "indicators \<Rightarrow> bool" where
  "call_entry r =
     (le_f (BB60 r) (Num 35) \<and>
      between (RSI20 r) 65 100 \<and>
      between (WILLR28 r) (- 20) 0 \<and>
      ge_f (DI6_pos r) (Num 40) \<and> le_f (DI6_neg r) (Num 12) \<and>
      ge_f (DI20_pos r) (Num 35) \<and> le_f (DI20_neg r) (Num 15))"

definition put_entry :: "indicators \<Rightarrow> bool" where
  "put_entry r =
     (le_f (BB60 r) (Num 35) \<and>
      between (RSI20 r) 1 40 \<and>
      between (WILLR28 r) (- 100) (- 80) \<and>
      ge_f (DI6_neg r) (Num 35) \<and> le_f (DI6_pos r) (Num 15) \<and>
      ge_f (DI20_neg r) (Num 30) \<and> le_f (DI20_pos r) (Num 15))"

definition di_diff :: "indicators \<Rightarrow> pyfloat" where
  "di_diff r = abs_f (sub_f (DI20_pos r) (DI20_neg r))"

definition call_exit :: "indrow \<Rightarrow> bool" where
  "call_exit r = (lt_f (di_diff (Ind r)) (Num 10) \<or> lt_f (Close (Bar r)) (MA8 (Ind r)))"

definition put_exit :: "indrow \<Rightarrow> bool" where
  "put_exit r = (lt_f (di_diff (Ind r)) (Num 10) \<or> gt_f (Close (Bar r)) (MA8 (Ind r)))"

definition strategy_row :: "indrow \<Rightarrow> sigrow" where
  "strategy_row r =
     \<lparr>Row = r,
      CALL_ENTRY = call_entry (Ind r),
      PUT_ENTRY = put_entry (Ind r),
      CALL_EXIT = call_exit r,
      PUT_EXIT = put_exit r\<rparr>"

definition apply_strategy :: "indrow list \<Rightarrow> sigrow list" where
  "apply_strategy df = map strategy_row df"

subsection \<open>The pipeline\<close>

definition tag_stock :: "string \<Rightarrow> (bar \<times> indicators) list \<Rightarrow> indrow list" where
  "tag_stock stock ind = map (\<lambda>(b, v). \<lparr>Bar = b, Ind = v, Stock = stock\<rparr>) ind"

fun collect_frames ::
  "(string \<Rightarrow> bar list) \<Rightarrow> (bar list \<Rightarrow> nat \<Rightarrow> indicators) \<Rightarrow> string list \<Rightarrow> indrow list list" where
  "collect_frames download ta [] = []"
| "collect_frames download ta (stock # stocks) =
     (case fetch_data download stock of
        None \<Rightarrow> collect_frames download ta stocks
      | Some raw \<Rightarrow>
          if length raw \<ge> MIN_BARS
          then tag_stock stock (add_indicators ta raw) # collect_frames download ta stocks
          else collect_frames download ta stocks)"

text \<open>Lines 122 to 135: the loop, the \<^verbatim>\<open>st.stop()\<close> on no frame, \<^verbatim>\<open>pd.concat\<close>.\<close>

definition aggregate ::
  "(string \<Rightarrow> bar list) \<Rightarrow> (bar list \<Rightarrow> nat \<Rightarrow> indicators) \<Rightarrow> string list \<Rightarrow> pipeline_error + indrow list" where
  "aggregate download ta stocks =
     (let frames = collect_frames download ta stocks in
      if frames = [] then Inl NoValidData else Inr (concat frames))"

section \<open>kite_trader.py\<close>

subsection \<open>Broker data\<close>

text \<open>
  An entry of the instrument dump, with the keys the module reads; the expiry date is a
  day number. A net position, with its two keys.
\<close>

record instrument =
  ins_name :: string
  ins_expiry :: nat
  ins_strike :: real
  ins_instrument_type :: string
  ins_tradingsymbol :: string

record position =
  pos_tradingsymbol :: string
  pos_quantity :: int

datatype variety = VARIETY_REGULAR
datatype transaction_type = TRANSACTION_TYPE_BUY | TRANSACTION_TYPE_SELL
datatype order_type = ORDER_TYPE_MARKET

record order =
  ord_variety :: variety
  ord_exchange :: string
  ord_tradingsymbol :: string
  ord_transaction_type :: transaction_type
  ord_quantity :: int
  ord_product :: string
  ord_order_type :: order_type

text \<open>The calls the module makes on the \<^verbatim>\<open>KiteConnect\<close> session.\<close>

datatype call =
  Ltp string
| Instruments string
| Place_order order
| Positions

text \<open>
  The exceptions of the module: one raised inside a broker call (with its message), the
  two lookups that can fail locally, and \<^verbatim>\<open>Exception("Option symbol not found")\<close>.
\<close>

datatype error =
  KiteException string
| KeyError
| IndexError
| Option_symbol_not_found

text \<open>
  The broker is the external collaborator: each method answers with a value or raises,
  and its answer may depend on the calls made before (\<open>Inl\<close> is the message of the
  exception). \<open>kite_ltp\<close> gives the \<^verbatim>\<open>last_price\<close> of each quoted key,
  \<open>kite_positions\<close> the \<^verbatim>\<open>"net"\<close> list.
\<close>

record kite =
  kite_ltp :: "call list \<Rightarrow> string \<Rightarrow> string + (string \<Rightarrow> real option)"
  kite_instruments :: "call list \<Rightarrow> string \<Rightarrow> string + instrument list"
  kite_place_order :: "call list \<Rightarrow> order \<Rightarrow> string + string"
  kite_positions :: "call list \<Rightarrow> string + position list"

text \<open>The settings of the \<^verbatim>\<open>config\<close> module that the functions read.\<close>

record config =
  AUTO_TRADE :: bool
  EXCHANGE :: string
  ORDER_QTY :: int
  PRODUCT :: string

datatype log_entry =
  PAPER_ENTRY string
| LIVE_ENTRY string string
| PAPER_EXIT string
| LIVE_EXIT string

text \<open>
  The state the functions read and write: the global cache \<^verbatim>\<open>_INSTRUMENTS\<close>, the
  broker calls made so far (oldest first) and the lines logged.
\<close>

record state =
  INSTRUMENTS :: "instrument list option"
  calls :: "call list"
  logged :: "log_entry list"

record entry_result =
  status :: string
  symbol :: string
  order_id :: "string option"

type_synonym 'a action = "state \<Rightarrow> (error + 'a) \<times> state"

text \<open>Sequencing: an exception ends the function, the state reached so far stays.\<close>

definition then_do :: "'a action \<Rightarrow> ('a \<Rightarrow> 'b action) \<Rightarrow> 'b action" where
  "then_do f g s = (case f s of (Inl e, s') \<Rightarrow> (Inl e, s') | (Inr x, s') \<Rightarrow> g x s')"

definition record_call :: "call \<Rightarrow> state \<Rightarrow> state" where
  "record_call c s = s\<lparr>calls := calls s @ [c]\<rparr>"

definition info :: "log_entry \<Rightarrow> state \<Rightarrow> state" where
  "info l s = s\<lparr>logged := logged s @ [l]\<rparr>"

subsection \<open>Instrument resolution\<close>

definition load_instruments :: "kite \<Rightarrow> instrument list action" where
  "load_instruments k s =
     (case INSTRUMENTS s of
        None \<Rightarrow>
          (case kite_instruments k (calls s) ''NFO'' of
             Inl m \<Rightarrow> (Inl (KiteException m), record_call (Instruments ''NFO'') s)
           | Inr ins \<Rightarrow> (Inr ins, (record_call (Instruments ''NFO'') s)\<lparr>INSTRUMENTS := Some ins\<rparr>))
      | Some ins \<Rightarrow> (Inr ins, s))"

definition get_nifty_spot :: "kite \<Rightarrow> real action" where
  "get_nifty_spot k s =
     (case kite_ltp k (calls s) ''NSE:NIFTY 50'' of
        Inl m \<Rightarrow> (Inl (KiteException m), record_call (Ltp ''NSE:NIFTY 50'') s)
      | Inr ltp \<Rightarrow>
          (case ltp ''NSE:NIFTY 50'' of
             None \<Rightarrow> (Inl KeyError, record_call (Ltp ''NSE:NIFTY 50'') s)
           | Some last_price \<Rightarrow> (Inr last_price, record_call (Ltp ''NSE:NIFTY 50'') s)))"

text \<open>\<^verbatim>\<open>sorted(list({...}))\<close>: the distinct expiries in ascending order.\<close>

definition nifty_expiries :: "instrument list \<Rightarrow> nat list" where
  "nifty_expiries instruments =
     sort (remdups (map ins_expiry (filter (\<lambda>i. ins_name i = ''NIFTY'') instruments)))"

definition get_current_expiry :: "kite \<Rightarrow> nat action" where
  "get_current_expiry k =
     then_do (load_instruments k) (\<lambda>instruments s.
       (case nifty_expiries instruments of
          [] \<Rightarrow> (Inl IndexError, s)
        | e # _ \<Rightarrow> (Inr e, s)))"

text \<open>Python's \<^verbatim>\<open>round\<close> of a float to an integer: to the nearest, a tie to the even one.\<close>

definition py_round :: "real \<Rightarrow> int" where
  "py_round x =
     (let f = \<lfloor>x\<rfloor>; d = x - of_int f in
      if d < 1 / 2 then f
      else if d > 1 / 2 then f + 1
      else if even f then f else f + 1)"

definition atm_strike :: "real \<Rightarrow> int" where
  "atm_strike spot = py_round (spot / 50) * 50"

definition option_matches :: "nat \<Rightarrow> int \<Rightarrow> string \<Rightarrow> instrument \<Rightarrow> bool" where
  "option_matches expiry strike side ins =
     (ins_name ins = ''NIFTY''
      \<and> ins_expiry ins = expiry
      \<and> ins_strike ins = of_int strike
      \<and> ins_instrument_type ins = (if side = ''CALL'' then ''CE'' else ''PE''))"

definition get_atm_option_symbol :: "kite \<Rightarrow> string \<Rightarrow> string action" where
  "get_atm_option_symbol k side =
     then_do (get_nifty_spot k) (\<lambda>spot.
     then_do (get_current_expiry k) (\<lambda>expiry.
     then_do (load_instruments k) (\<lambda>instruments s.
       (case find (option_matches expiry (atm_strike spot) side) instruments of
          Some ins \<Rightarrow> (Inr (ins_tradingsymbol ins), s)
        | None \<Rightarrow> (Inl Option_symbol_not_found, s)))))"

subsection \<open>Orders\<close>

definition market_order :: "config \<Rightarrow> string \<Rightarrow> transaction_type \<Rightarrow> int \<Rightarrow> order" where
  "market_order cfg tsym side qty =
     \<lparr>ord_variety = VARIETY_REGULAR,
      ord_exchange = EXCHANGE cfg,
      ord_tradingsymbol = tsym,
      ord_transaction_type = side,
      ord_quantity = qty,
      ord_product = PRODUCT cfg,
      ord_order_type = ORDER_TYPE_MARKET\<rparr>"

definition place_order :: "kite \<Rightarrow> order \<Rightarrow> string action" where
  "place_order k ord s =
     (case kite_place_order k (calls s) ord of
        Inl m \<Rightarrow> (Inl (KiteException m), record_call (Place_order ord) s)
      | Inr oid \<Rightarrow> (Inr oid, record_call (Place_order ord) s))"

definition place_entry :: "kite \<Rightarrow> config \<Rightarrow> string \<Rightarrow> entry_result action" where
  "place_entry k cfg side =
     then_do (get_atm_option_symbol k side) (\<lambda>tsym s.
       if \<not> AUTO_TRADE cfg
       then (Inr \<lparr>status = ''paper'', symbol = tsym, order_id = None\<rparr>, info (PAPER_ENTRY tsym) s)
       else then_do (place_order k (market_order cfg tsym TRANSACTION_TYPE_BUY (ORDER_QTY cfg)))
              (\<lambda>oid s'. (Inr \<lparr>status = ''live'', symbol = tsym, order_id = Some oid\<rparr>,
                         info (LIVE_ENTRY tsym oid) s')) s)"

definition exit_position :: "kite \<Rightarrow> config \<Rightarrow> string \<Rightarrow> int \<Rightarrow> unit action" where
  "exit_position k cfg tsym qty s =
     (if \<not> AUTO_TRADE cfg
      then (Inr (), info (PAPER_EXIT tsym) s)
      else then_do (place_order k (market_order cfg tsym TRANSACTION_TYPE_SELL qty))
             (\<lambda>oid s'. (Inr (), info (LIVE_EXIT tsym) s')) s)"

definition get_open_positions :: "kite \<Rightarrow> position list action" where
  "get_open_positions k s =
     (case kite_positions k (calls s) of
        Inl m \<Rightarrow> (Inl (KiteException m), record_call Positions s)
      | Inr net \<Rightarrow> (Inr (filter (\<lambda>p. pos_quantity p \<noteq> 0) net), record_call Positions s))"

text \<open>The loop of \<open>auto_exit\<close> over the open positions.\<close>

fun exit_each :: "kite \<Rightarrow> config \<Rightarrow> position list \<Rightarrow> unit action" where
  "exit_each k cfg [] s = (Inr (), s)"
| "exit_each k cfg (pos # positions) s =
     (case exit_position k cfg (pos_tradingsymbol pos) \<bar>pos_quantity pos\<bar> s of
        (Inl e, s') \<Rightarrow> (Inl e, s')
      | (Inr u, s') \<Rightarrow> exit_each k cfg positions s')"

definition auto_exit :: "kite \<Rightarrow> config \<Rightarrow> bool \<Rightarrow> unit action" where
  "auto_exit k cfg exit_signal s =
     (if \<not> exit_signal then (Inr (), s)
      else then_do (get_open_positions k) (exit_each k cfg) s)"

definition has_open_position :: "kite \<Rightarrow> bool action" where
  "has_open_position k =
     then_do (get_open_positions k) (\<lambda>positions s. (Inr (length positions > 0), s))"

section \<open>Example rows\<close>

definition blank_bar :: bar where
  "blank_bar = \<lparr>Datetime = None, Adj_Close = NaN, Close = NaN, High = NaN, Low = NaN, Open = NaN,
     Volume = NaN\<rparr>"

definition blank_indicators :: indicators where
  "blank_indicators = \<lparr>BB60 = NaN, BB105 = NaN, BB150 = NaN, RSI20 = NaN, WILLR28 = NaN,
     DI6_pos = NaN, DI6_neg = NaN, DI20_pos = NaN, DI20_neg = NaN, MA8 = NaN\<rparr>"


text \<open>A row on every boundary of the CALL thresholds, and one on those of the PUT thresholds.\<close>

definition call_example :: indrow where
  "call_example =
     \<lparr>Bar = blank_bar\<lparr>Close := Num 100\<rparr>,
      Ind = blank_indicators\<lparr>BB60 := Num 35, RSI20 := Num 65, WILLR28 := Num (- 20),
        DI6_pos := Num 40, DI6_neg := Num 12, DI20_pos := Num 35, DI20_neg := Num 15, MA8 := Num 100\<rparr>,
      Stock = ''X''\<rparr>"

definition put_example :: indrow where
  "put_example =
     \<lparr>Bar = blank_bar\<lparr>Close := Num 100\<rparr>,
      Ind = blank_indicators\<lparr>BB60 := Num 35, RSI20 := Num 40, WILLR28 := Num (- 80),
        DI6_pos := Num 15, DI6_neg := Num 35, DI20_pos := Num 15, DI20_neg := Num 30, MA8 := Num 100\<rparr>,
      Stock = ''X''\<rparr>"

text \<open>A row with +DI20 missing, a row with the close missing, a row with close above MA8
  and the two DI20 values five apart.\<close>

definition nan_example :: indrow where
  "nan_example =
     \<lparr>Bar = blank_bar\<lparr>Close := Num 100\<rparr>,
      Ind = blank_indicators\<lparr>DI20_neg := Num 10, MA8 := Num 101\<rparr>,
      Stock = ''X''\<rparr>"

definition nan_close_example :: indrow where
  "nan_close_example =
     \<lparr>Bar = blank_bar,
      Ind = blank_indicators\<lparr>DI20_pos := Num 20, DI20_neg := Num 15, MA8 := Num 101\<rparr>,
      Stock = ''X''\<rparr>"

definition near_example :: indrow where
  "near_example =
     \<lparr>Bar = blank_bar\<lparr>Close := Num 102\<rparr>,
      Ind = blank_indicators\<lparr>DI20_pos := Num 20, DI20_neg := Num 15, MA8 := Num 101\<rparr>,
      Stock = ''X''\<rparr>"

text \<open>
  A row with close equal to MA8 whose +DI20 and -DI20 are the doubles nearest to 10.1 and
  to 0.1: their exact difference is below 10, their float64 difference is 10.
\<close>

definition rounding_example :: indrow where
  "rounding_example =
     \<lparr>Bar = blank_bar\<lparr>Close := Num 100\<rparr>,
      Ind = blank_indicators\<lparr>DI20_pos := Num (5685794529555251 / 2 ^ 49),
        DI20_neg := Num (3602879701896397 / 2 ^ 55), MA8 := Num 100\<rparr>,
      Stock = ''X''\<rparr>"

text \<open>Some input of an entry predicate is missing.\<close>

definition entry_input_undefined :: "indicators \<Rightarrow> bool" where
  "entry_input_undefined r =
     (isna (BB60 r) \<or> isna (RSI20 r) \<or> isna (WILLR28 r) \<or> isna (DI6_pos r) \<or> isna (DI6_neg r)
      \<or> isna (DI20_pos r) \<or> isna (DI20_neg r))"

section \<open>Reference notions for the order router\<close>

text \<open>
  The spec's words for the expiry of a resolution: the nearest future expiry of the
  underlying, that is the least expiry of a NIFTY contract that is not before today. The
  module has no clock; this definition is what \<open>get_current_expiry\<close> is compared with.
\<close>

definition spec_nearest_future_expiry :: "nat \<Rightarrow> instrument list \<Rightarrow> nat option" where
  "spec_nearest_future_expiry today instruments =
     (let future = filter (\<lambda>e. today \<le> e)
                     (map ins_expiry (filter (\<lambda>i. ins_name i = ''NIFTY'') instruments))
      in if future = [] then None else Some (Min (set future)))"

text \<open>The least expiry among the NIFTY contracts of a universe that has one.\<close>

definition earliest_nifty_expiry :: "instrument list \<Rightarrow> nat" where
  "earliest_nifty_expiry instruments =
     Min (set (map ins_expiry (filter (\<lambda>i. ins_name i = ''NIFTY'') instruments)))"

text \<open>The broker call that exits a position in live mode.\<close>

definition sell_order :: "config \<Rightarrow> position \<Rightarrow> call" where
  "sell_order cfg p =
     Place_order (market_order cfg (pos_tradingsymbol p) TRANSACTION_TYPE_SELL \<bar>pos_quantity p\<bar>)"

section \<open>Example brokers, states and downloads\<close>

text \<open>A universe with two NIFTY expiries (day 5 and day 12) and a contract of another underlying.\<close>

definition demo_universe :: "instrument list" where
  "demo_universe =
     [\<lparr>ins_name = ''BANKNIFTY'', ins_expiry = 3, ins_strike = 10500, ins_instrument_type = ''CE'',
       ins_tradingsymbol = ''BANKNIFTY-D3-10500CE''\<rparr>,
      \<lparr>ins_name = ''NIFTY'', ins_expiry = 12, ins_strike = 10500, ins_instrument_type = ''CE'',
       ins_tradingsymbol = ''NIFTY-D12-10500CE''\<rparr>,
      \<lparr>ins_name = ''NIFTY'', ins_expiry = 5, ins_strike = 10500, ins_instrument_type = ''PE'',
       ins_tradingsymbol = ''NIFTY-D5-10500PE''\<rparr>,
      \<lparr>ins_name = ''NIFTY'', ins_expiry = 5, ins_strike = 10500, ins_instrument_type = ''CE'',
       ins_tradingsymbol = ''NIFTY-D5-10500CE''\<rparr>]"

definition demo_positions :: "position list" where
  "demo_positions =
     [\<lparr>pos_tradingsymbol = ''NIFTY-D5-10500CE'', pos_quantity = 50\<rparr>,
      \<lparr>pos_tradingsymbol = ''NIFTY-D5-10400PE'', pos_quantity = 0\<rparr>,
      \<lparr>pos_tradingsymbol = ''BANKNIFTY-D3-10500CE'', pos_quantity = - 25\<rparr>]"

text \<open>A broker that answers every call (spot 10523), and one whose every call raises.\<close>

definition demo_kite :: kite where
  "demo_kite =
     \<lparr>kite_ltp = (\<lambda>h key. Inr (\<lambda>q. if q = ''NSE:NIFTY 50'' then Some 10523 else None)),
      kite_instruments = (\<lambda>h segment. Inr demo_universe),
      kite_place_order = (\<lambda>h ord. Inr ''OID''),
      kite_positions = (\<lambda>h. Inr demo_positions)\<rparr>"

definition down_kite :: kite where
  "down_kite =
     \<lparr>kite_ltp = (\<lambda>h key. Inl ''timeout''),
      kite_instruments = (\<lambda>h segment. Inl ''timeout''),
      kite_place_order = (\<lambda>h ord. Inl ''timeout''),
      kite_positions = (\<lambda>h. Inl ''timeout'')\<rparr>"

definition initial_state :: state where
  "initial_state = \<lparr>INSTRUMENTS = None, calls = [], logged = []\<rparr>"

definition paper_config :: config where
  "paper_config = \<lparr>AUTO_TRADE = False, EXCHANGE = ''NFO'', ORDER_QTY = 50, PRODUCT = ''MIS''\<rparr>"

definition live_config :: config where
  "live_config = \<lparr>AUTO_TRADE = True, EXCHANGE = ''NFO'', ORDER_QTY = 50, PRODUCT = ''MIS''\<rparr>"

text \<open>The state a first resolution leaves: the universe is cached for the rest of the process.\<close>

definition stale_state :: state where
  "stale_state =
     \<lparr>INSTRUMENTS = Some demo_universe, calls = [Ltp ''NSE:NIFTY 50'', Instruments ''NFO''],
      logged = []\<rparr>"

text \<open>Downloads of 160 bars, of 159 bars, of 160 bars of which one has no adjusted close,
  and of none.\<close>

definition demo_bar :: bar where
  "demo_bar = \<lparr>Datetime = Some (1, 36000), Adj_Close = Num 100, Close = Num 100, High = Num 101,
     Low = Num 99, Open = Num 100, Volume = Num 5000\<rparr>"

definition demo_download :: "string \<Rightarrow> bar list" where
  "demo_download stock =
     (if stock = ''LONG'' then replicate 160 demo_bar
      else if stock = ''SHORT'' then replicate 159 demo_bar
      else if stock = ''GAPS'' then replicate 159 demo_bar @ [demo_bar\<lparr>Adj_Close := NaN\<rparr>]
      else [])"

definition demo_ta :: "bar list \<Rightarrow> nat \<Rightarrow> indicators" where
  "demo_ta df i = blank_indicators"

section \<open>Rounding to a double near ten\<close>

lemma nearest_even_close: "\<bar>real_of_int (nearest_even y) - y\<bar> \<le> 1 / 2"
proof -
  have "real_of_int \<lfloor>y\<rfloor> \<le> y" and "y < real_of_int \<lfloor>y\<rfloor> + 1"
    by linarith+
  then show ?thesis
    by (auto simp: nearest_even_def Let_def)
qed

lemma nearest_even_less:
  assumes "even N"
  shows "nearest_even y < N \<longleftrightarrow> y < real_of_int N - 1 / 2"
proof -
  let ?f = "\<lfloor>y\<rfloor>"
  have lo: "real_of_int ?f \<le> y" and hi: "y < real_of_int ?f + 1"
    by linarith+
  show ?thesis
  proof (cases "?f < N - 1")
    case True
    then have "real_of_int ?f + 1 \<le> real_of_int N - 1"
      by linarith
    then have "y < real_of_int N - 1 / 2"
      using hi by linarith
    moreover have "nearest_even y \<le> ?f + 1"
      by (simp add: nearest_even_def Let_def)
    ultimately show ?thesis
      using True by linarith
  next
    case False
    show ?thesis
    proof (cases "?f = N - 1")
      case True
      then have odd: "odd ?f"
        using assms by simp
      have f: "real_of_int ?f = real_of_int N - 1"
        using True by simp
      show ?thesis
        using odd f True by (auto simp: nearest_even_def Let_def)
    next
      case False
      with \<open>\<not> ?f < N - 1\<close> have ge: "N \<le> ?f"
        by linarith
      then have "real_of_int N \<le> y"
        using lo by linarith
      moreover have "?f \<le> nearest_even y"
        by (simp add: nearest_even_def Let_def)
      ultimately show ?thesis
        using ge by linarith
    qed
  qed
qed

lemma nearest_even_greater:
  assumes "even N"
  shows "N < nearest_even y \<longleftrightarrow> real_of_int N + 1 / 2 < y"
proof -
  let ?f = "\<lfloor>y\<rfloor>"
  have lo: "real_of_int ?f \<le> y" and hi: "y < real_of_int ?f + 1"
    by linarith+
  show ?thesis
  proof (cases "N < ?f")
    case True
    then have "real_of_int N + 1 \<le> real_of_int ?f"
      by linarith
    then have "real_of_int N + 1 / 2 < y"
      using lo by linarith
    moreover have "?f \<le> nearest_even y"
      by (simp add: nearest_even_def Let_def)
    ultimately show ?thesis
      using True by linarith
  next
    case False
    show ?thesis
    proof (cases "?f = N")
      case True
      then have ev: "even ?f"
        using assms by simp
      have f: "real_of_int ?f = real_of_int N"
        using True by simp
      show ?thesis
        using ev f True by (auto simp: nearest_even_def Let_def)
    next
      case False
      with \<open>\<not> N < ?f\<close> have le: "?f + 1 \<le> N"
        by linarith
      then have "y < real_of_int N"
        using hi by linarith
      moreover have "nearest_even y \<le> ?f + 1"
        by (simp add: nearest_even_def Let_def)
      ultimately show ?thesis
        using le by linarith
    qed
  qed
qed

lemma abs_nearest_even_less:
  assumes "even N"
  shows "\<bar>nearest_even y\<bar> < N \<longleftrightarrow> \<bar>y\<bar> < real_of_int N - 1 / 2"
proof -
  have "\<bar>nearest_even y\<bar> < N \<longleftrightarrow> nearest_even y < N \<and> - N < nearest_even y"
    by linarith
  also have "\<dots> \<longleftrightarrow> y < real_of_int N - 1 / 2 \<and> real_of_int (- N) + 1 / 2 < y"
    using nearest_even_less [OF assms, of y] nearest_even_greater [of "- N" y] assms by simp
  also have "\<dots> \<longleftrightarrow> \<bar>y\<bar> < real_of_int N - 1 / 2"
    by (simp add: abs_less_iff) linarith
  finally show ?thesis .
qed

lemma float_exponent_bracket:
  assumes "0 < a"
  shows "2 powi float_exponent a \<le> a \<and> a < 2 powi (float_exponent a + 1)"
proof (cases "1 \<le> a")
  case True
  let ?n = "nat \<lfloor>a\<rfloor>"
  let ?k = "floorlog 2 ?n"
  have n: "0 < ?n"
    using True by simp
  have b: "2 ^ (?k - 1) \<le> ?n \<and> ?n < 2 ^ ?k"
    using floorlog_bounds [of ?n 2] n by simp
  have k: "1 \<le> ?k"
    using n by (simp add: floorlog_def)
  have e: "float_exponent a = int (?k - 1)"
    using True k by (simp add: float_exponent_def bitlen_def)
  have e1: "float_exponent a + 1 = int ?k"
    using e k by simp
  have fl: "int ?n = \<lfloor>a\<rfloor>"
    using True by simp
  have "int (2 ^ (?k - 1)) \<le> int ?n" and "int ?n < int (2 ^ ?k)"
    using b by (simp_all only: of_nat_le_iff of_nat_less_iff)
  then have "(2::int) ^ (?k - 1) \<le> \<lfloor>a\<rfloor>" and "\<lfloor>a\<rfloor> < (2::int) ^ ?k"
    unfolding fl by simp_all
  then have lo: "2 ^ (?k - 1) \<le> a" and hi: "a < 2 ^ ?k"
    by (simp_all add: le_floor_iff floor_less_iff)
  have "(2::real) powi float_exponent a = 2 ^ (?k - 1)"
    by (simp only: e power_int_of_nat)
  moreover have "(2::real) powi (float_exponent a + 1) = 2 ^ ?k"
    by (simp only: e1 power_int_of_nat)
  ultimately show ?thesis
    using lo hi by simp
next
  case False
  let ?N = "\<lceil>1 / a\<rceil>"
  let ?m = "nat (?N - 1)"
  let ?k = "floorlog 2 ?m"
  have inv: "1 < 1 / a"
    using assms False by simp
  then have "1 < ?N"
    by (simp only: less_ceiling_iff of_int_1)
  then have N: "2 \<le> ?N"
    by linarith
  then have m: "0 < ?m"
    by simp
  have b: "2 ^ (?k - 1) \<le> ?m \<and> ?m < 2 ^ ?k"
    using floorlog_bounds [of ?m 2] m by simp
  have k: "1 \<le> ?k"
    using m by (simp add: floorlog_def)
  have e: "float_exponent a = - int ?k"
    using False by (simp add: float_exponent_def bitlen_def)
  have e1: "float_exponent a + 1 = - int (?k - 1)"
    using e k by simp
  have "0 \<le> ?N - 1"
    using N by linarith
  then have mN: "int ?m = ?N - 1"
    by (rule nat_0_le)
  have "int (2 ^ (?k - 1)) \<le> int ?m" and "int ?m < int (2 ^ ?k)"
    using b by (simp_all only: of_nat_le_iff of_nat_less_iff)
  then have "(2::int) ^ (?k - 1) < ?N" and "?N \<le> (2::int) ^ ?k"
    unfolding mN by simp_all
  then have dn: "2 ^ (?k - 1) < 1 / a" and up: "1 / a \<le> 2 ^ ?k"
    by (simp_all add: less_ceiling_iff ceiling_le_iff)
  have lo: "1 / 2 ^ ?k \<le> a"
    using up assms by (simp add: field_simps)
  have hi: "a < 1 / 2 ^ (?k - 1)"
    using dn assms by (simp add: field_simps)
  have "(2::real) powi float_exponent a = 1 / 2 ^ ?k"
    by (simp only: e power_int_minus power_int_of_nat inverse_eq_divide)
  moreover have "(2::real) powi (float_exponent a + 1) = 1 / 2 ^ (?k - 1)"
    by (simp only: e1 power_int_minus power_int_of_nat inverse_eq_divide)
  ultimately show ?thesis
    using lo hi by simp
qed

lemma float_exponent_unique:
  assumes "2 powi e \<le> a" and "a < 2 powi (e + 1)"
  shows "float_exponent a = e"
proof -
  have "(0::real) < 2 powi e"
    by simp
  then have pos: "0 < a"
    using assms(1) by linarith
  let ?ec = "float_exponent a"
  have b: "2 powi ?ec \<le> a" "a < 2 powi (?ec + 1)"
    using float_exponent_bracket [OF pos] by simp_all
  have "\<not> ?ec < e"
  proof
    assume "?ec < e"
    then have "(2::real) powi (?ec + 1) \<le> 2 powi e"
      by (intro power_int_increasing) auto
    then show False
      using b(2) assms(1) by linarith
  qed
  moreover have "\<not> e < ?ec"
  proof
    assume "e < ?ec"
    then have "(2::real) powi (e + 1) \<le> 2 powi ?ec"
      by (intro power_int_increasing) auto
    then show False
      using b(1) assms(2) by linarith
  qed
  ultimately show ?thesis
    by linarith
qed

lemma round_double_binade3:
  assumes "8 \<le> \<bar>x\<bar>" and "\<bar>x\<bar> < 16"
  shows "round_double x = real_of_int (nearest_even (x * 2 ^ 49)) / 2 ^ 49"
proof -
  have "float_exponent \<bar>x\<bar> = 3"
    using assms by (intro float_exponent_unique) simp_all
  moreover have "x \<noteq> 0"
    using assms(1) by auto
  ultimately show ?thesis
    by (simp add: round_double_def Let_def power_int_minus field_simps)
qed

lemma int_abs_le_of_real:
  assumes "\<bar>real_of_int r\<bar> < real_of_int N + 1"
  shows "\<bar>real_of_int r\<bar> \<le> real_of_int N"
proof -
  have "real_of_int \<bar>r\<bar> < real_of_int (N + 1)"
    using assms by simp
  then have "\<bar>r\<bar> < N + 1"
    by (simp only: of_int_less_iff)
  then have "\<bar>r\<bar> \<le> N"
    by simp
  then have "real_of_int \<bar>r\<bar> \<le> real_of_int N"
    by (simp only: of_int_le_iff)
  then show ?thesis
    by simp
qed

lemma int_abs_ge_of_real:
  assumes "real_of_int N - 1 < \<bar>real_of_int r\<bar>"
  shows "real_of_int N \<le> \<bar>real_of_int r\<bar>"
proof -
  have "real_of_int (N - 1) < real_of_int \<bar>r\<bar>"
    using assms by simp
  then have "N - 1 < \<bar>r\<bar>"
    by (simp only: of_int_less_iff)
  then have "N \<le> \<bar>r\<bar>"
    by simp
  then have "real_of_int N \<le> real_of_int \<bar>r\<bar>"
    by (simp only: of_int_le_iff)
  then show ?thesis
    by simp
qed

lemma round_double_small:
  assumes "\<bar>x\<bar> < 8"
  shows "\<bar>round_double x\<bar> \<le> 8"
proof (cases "x = 0")
  case True
  then show ?thesis by (simp add: round_double_def)
next
  case False
  let ?ex = "float_exponent \<bar>x\<bar>"
  let ?ec = "max ?ex (- 1022)"
  let ?u = "(2::real) powi (?ec - 52)"
  let ?r = "nearest_even (x / ?u)"
  have pos: "0 < \<bar>x\<bar>"
    using False by simp
  have b: "2 powi ?ex \<le> \<bar>x\<bar>" "\<bar>x\<bar> < 2 powi (?ex + 1)"
    using float_exponent_bracket [OF pos] by simp_all
  have u: "0 < ?u"
    by simp
  have e0: "?ex \<le> 2"
  proof (rule ccontr)
    assume "\<not> ?ex \<le> 2"
    then have "(2::real) powi 3 \<le> 2 powi ?ex"
      by (intro power_int_increasing) auto
    then show False
      using b(1) assms by simp
  qed
  then have e: "?ec \<le> 2"
    by simp
  have "(2::real) powi (?ex + 1) \<le> 2 powi (?ec + 1)"
    by (intro power_int_increasing) auto
  then have x: "\<bar>x\<bar> < 2 powi (?ec + 1)"
    using b(2) by linarith
  have split: "(2::real) powi (?ec + 1) = 2 ^ 53 * ?u"
  proof -
    have "?ec + 1 = 53 + (?ec - 52)"
      by linarith
    then have "(2::real) powi (?ec + 1) = 2 powi (53 + (?ec - 52))"
      by (rule arg_cong)
    also have "\<dots> = 2 powi 53 * ?u"
      by (subst power_int_add) simp_all
    finally show ?thesis by simp
  qed
  have "\<bar>x / ?u\<bar> < 2 ^ 53"
    using x u unfolding split by (simp add: field_simps)
  moreover have "\<bar>real_of_int ?r - x / ?u\<bar> \<le> 1 / 2"
    by (rule nearest_even_close)
  ultimately have "\<bar>real_of_int ?r\<bar> < 2 ^ 53 + 1 / 2"
    by linarith
  then have "\<bar>real_of_int ?r\<bar> < real_of_int (2 ^ 53) + 1"
    by simp
  then have "\<bar>real_of_int ?r\<bar> \<le> real_of_int (2 ^ 53)"
    by (rule int_abs_le_of_real)
  then have r: "\<bar>real_of_int ?r\<bar> \<le> 2 ^ 53"
    by simp
  have "\<bar>round_double x\<bar> = \<bar>real_of_int ?r\<bar> * ?u"
    using False u by (simp add: round_double_def Let_def abs_mult)
  also have "\<dots> \<le> 2 ^ 53 * ?u"
    using r u by (intro mult_right_mono) simp_all
  also have "\<dots> = 2 powi (?ec + 1)"
    using split by simp
  also have "\<dots> \<le> 2 powi 3"
    using e by (intro power_int_increasing) auto
  finally show ?thesis
    by simp
qed

lemma round_double_large:
  assumes "16 \<le> \<bar>x\<bar>"
  shows "16 \<le> \<bar>round_double x\<bar>"
proof -
  let ?ex = "float_exponent \<bar>x\<bar>"
  let ?u = "(2::real) powi (?ex - 52)"
  let ?r = "nearest_even (x / ?u)"
  have pos: "0 < \<bar>x\<bar>" and nz: "x \<noteq> 0"
    using assms by auto
  have b: "2 powi ?ex \<le> \<bar>x\<bar>" "\<bar>x\<bar> < 2 powi (?ex + 1)"
    using float_exponent_bracket [OF pos] by simp_all
  have u: "0 < ?u"
    by simp
  have e0: "4 \<le> ?ex"
  proof (rule ccontr)
    assume "\<not> 4 \<le> ?ex"
    then have "(2::real) powi (?ex + 1) \<le> 2 powi 4"
      by (intro power_int_increasing) auto
    then show False
      using b(2) assms by simp
  qed
  then have mx: "max ?ex (- 1022) = ?ex"
    by simp
  have split: "(2::real) powi ?ex = 2 ^ 52 * ?u"
  proof -
    have "(2::real) powi ?ex = 2 powi (52 + (?ex - 52))"
      by simp
    also have "\<dots> = 2 powi 52 * ?u"
      by (subst power_int_add) simp_all
    finally show ?thesis by simp
  qed
  have "2 ^ 52 \<le> \<bar>x / ?u\<bar>"
    using b(1) u unfolding split by (simp add: field_simps)
  moreover have "\<bar>real_of_int ?r - x / ?u\<bar> \<le> 1 / 2"
    by (rule nearest_even_close)
  ultimately have "2 ^ 52 - 1 / 2 \<le> \<bar>real_of_int ?r\<bar>"
    by linarith
  then have "real_of_int (2 ^ 52) - 1 < \<bar>real_of_int ?r\<bar>"
    by simp
  then have "real_of_int (2 ^ 52) \<le> \<bar>real_of_int ?r\<bar>"
    by (rule int_abs_ge_of_real)
  then have r: "2 ^ 52 \<le> \<bar>real_of_int ?r\<bar>"
    by simp
  have "(16::real) = 2 powi 4"
    by simp
  also have "\<dots> \<le> 2 powi ?ex"
    using e0 by (intro power_int_increasing) auto
  also have "\<dots> = 2 ^ 52 * ?u"
    by (rule split)
  also have "\<dots> \<le> \<bar>real_of_int ?r\<bar> * ?u"
    using r u by (intro mult_right_mono) simp_all
  also have "\<dots> = \<bar>round_double x\<bar>"
    using nz u by (simp add: round_double_def Let_def abs_mult mx)
  finally show ?thesis .
qed

lemma round_double_below_10: "\<bar>round_double x\<bar> < 10 \<longleftrightarrow> \<bar>x\<bar> < 10 - 1 / 2 ^ 50"
proof -
  consider "\<bar>x\<bar> < 8" | "8 \<le> \<bar>x\<bar>" "\<bar>x\<bar> < 16" | "16 \<le> \<bar>x\<bar>"
    by linarith
  then show ?thesis
  proof cases
    case 1
    then show ?thesis
      using round_double_small [OF 1] by simp
  next
    case 2
    have ev: "even (10 * 2 ^ 49 :: int)"
      by simp
    have "\<bar>round_double x\<bar> < 10 \<longleftrightarrow> \<bar>real_of_int (nearest_even (x * 2 ^ 49))\<bar> < 10 * 2 ^ 49"
      unfolding round_double_binade3 [OF 2] by (simp add: field_simps)
    also have "\<dots> \<longleftrightarrow> real_of_int \<bar>nearest_even (x * 2 ^ 49)\<bar> < real_of_int (10 * 2 ^ 49)"
      by simp
    also have "\<dots> \<longleftrightarrow> \<bar>nearest_even (x * 2 ^ 49)\<bar> < 10 * 2 ^ 49"
      by (rule of_int_less_iff)
    also have "\<dots> \<longleftrightarrow> \<bar>x * 2 ^ 49\<bar> < real_of_int (10 * 2 ^ 49) - 1 / 2"
      by (rule abs_nearest_even_less [OF ev])
    also have "\<dots> \<longleftrightarrow> \<bar>x\<bar> < 10 - 1 / 2 ^ 50"
      by (simp add: abs_mult field_simps)
    finally show ?thesis .
  next
    case 3
    then show ?thesis
      using round_double_large [OF 3] by simp
  qed
qed

lemma float_sub_below_10: "\<bar>float_sub p m\<bar> < 10 \<longleftrightarrow> \<bar>p - m\<bar> < 10 - 1 / 2 ^ 50"
  unfolding float_sub_def by (rule round_double_below_10)

lemma float_sub_not_below_10: "10 \<le> \<bar>float_sub p m\<bar> \<longleftrightarrow> 10 - 1 / 2 ^ 50 \<le> \<bar>p - m\<bar>"
  using float_sub_below_10 [of p m] by linarith

section \<open>The comparisons in terms of the numbers\<close>

lemma le_f_Num: "le_f x (Num c) = (\<exists>v. x = Num v \<and> v \<le> c)"
  by (cases x) auto

lemma ge_f_Num: "ge_f x (Num c) = (\<exists>v. x = Num v \<and> c \<le> v)"
  by (cases x) auto

lemma between_iff: "between x l r = (\<exists>v. x = Num v \<and> l \<le> v \<and> v \<le> r)"
  by (cases x) (auto simp: between_def)

lemma lt_f_iff: "lt_f x y = (\<exists>a b. x = Num a \<and> y = Num b \<and> a < b)"
  by (cases x; cases y) auto

lemma gt_f_iff: "gt_f x y = (\<exists>a b. x = Num a \<and> y = Num b \<and> a > b)"
  by (cases x; cases y) auto

lemma di_diff_lt_iff:
  "lt_f (di_diff r) (Num c) =
     (\<exists>p m. DI20_pos r = Num p \<and> DI20_neg r = Num m \<and> \<bar>float_sub p m\<bar> < c)"
  by (cases "DI20_pos r"; cases "DI20_neg r") (auto simp: di_diff_def)

lemma call_entry_iff:
  "call_entry r \<longleftrightarrow>
     (\<exists>bb rsi willr p6 m6 p20 m20.
        BB60 r = Num bb \<and> RSI20 r = Num rsi \<and> WILLR28 r = Num willr \<and>
        DI6_pos r = Num p6 \<and> DI6_neg r = Num m6 \<and> DI20_pos r = Num p20 \<and> DI20_neg r = Num m20 \<and>
        bb \<le> 35 \<and> 65 \<le> rsi \<and> rsi \<le> 100 \<and> - 20 \<le> willr \<and> willr \<le> 0 \<and>
        40 \<le> p6 \<and> m6 \<le> 12 \<and> 35 \<le> p20 \<and> m20 \<le> 15)"
  unfolding call_entry_def le_f_Num ge_f_Num between_iff by auto

lemma put_entry_iff:
  "put_entry r \<longleftrightarrow>
     (\<exists>bb rsi willr p6 m6 p20 m20.
        BB60 r = Num bb \<and> RSI20 r = Num rsi \<and> WILLR28 r = Num willr \<and>
        DI6_pos r = Num p6 \<and> DI6_neg r = Num m6 \<and> DI20_pos r = Num p20 \<and> DI20_neg r = Num m20 \<and>
        bb \<le> 35 \<and> 1 \<le> rsi \<and> rsi \<le> 40 \<and> - 100 \<le> willr \<and> willr \<le> - 80 \<and>
        35 \<le> m6 \<and> p6 \<le> 15 \<and> 30 \<le> m20 \<and> p20 \<le> 15)"
  unfolding put_entry_def le_f_Num ge_f_Num between_iff by auto

lemma call_exit_iff:
  "call_exit r \<longleftrightarrow>
     (\<exists>p m. DI20_pos (Ind r) = Num p \<and> DI20_neg (Ind r) = Num m \<and> \<bar>float_sub p m\<bar> < 10) \<or>
     (\<exists>c ma. Close (Bar r) = Num c \<and> MA8 (Ind r) = Num ma \<and> c < ma)"
  unfolding call_exit_def di_diff_lt_iff by (simp add: lt_f_iff)

lemma put_exit_iff:
  "put_exit r \<longleftrightarrow>
     (\<exists>p m. DI20_pos (Ind r) = Num p \<and> DI20_neg (Ind r) = Num m \<and> \<bar>float_sub p m\<bar> < 10) \<or>
     (\<exists>c ma. Close (Bar r) = Num c \<and> MA8 (Ind r) = Num ma \<and> c > ma)"
  unfolding put_exit_def di_diff_lt_iff by (simp add: gt_f_iff)

lemma apply_strategy_nth:
  "i < length df \<Longrightarrow> apply_strategy df ! i = strategy_row (df ! i)"
  by (simp add: apply_strategy_def)

lemma strategy_row_flags:
  "Row (strategy_row r) = r"
  "CALL_ENTRY (strategy_row r) = call_entry (Ind r)"
  "PUT_ENTRY (strategy_row r) = put_entry (Ind r)"
  "CALL_EXIT (strategy_row r) = call_exit r"
  "PUT_EXIT (strategy_row r) = put_exit r"
  by (simp_all add: strategy_row_def)

section \<open>The signal evaluator\<close>

text \<open>
  C1. Row \<open>i\<close> of the result of \<open>apply_strategy\<close> is row \<open>i\<close> of its argument with the
  flags added. Its CALL_ENTRY flag is true if and only if the seven inputs are numbers with
  BB60 \<open>\<le>\<close> 35, RSI20 in [65, 100], WILLR28 in [-20, 0], +DI6 \<open>\<ge>\<close> 40, -DI6 \<open>\<le>\<close> 12,
  +DI20 \<open>\<ge>\<close> 35 and -DI20 \<open>\<le>\<close> 15; its PUT_ENTRY flag is true if and only if they are numbers
  with BB60 \<open>\<le>\<close> 35, RSI20 in [1, 40], WILLR28 in [-100, -80], -DI6 \<open>\<ge>\<close> 35, +DI6 \<open>\<le>\<close> 15,
  -DI20 \<open>\<ge>\<close> 30 and +DI20 \<open>\<le>\<close> 15. Every bound is inclusive.
\<close>

theorem entry_flags_threshold_rules:
  assumes "i < length df"
  shows "Row (apply_strategy df ! i) = df ! i \<and>
    (CALL_ENTRY (apply_strategy df ! i) \<longleftrightarrow>
     (\<exists>bb rsi willr p6 m6 p20 m20.
        BB60 (Ind (df ! i)) = Num bb \<and> RSI20 (Ind (df ! i)) = Num rsi \<and>
        WILLR28 (Ind (df ! i)) = Num willr \<and>
        DI6_pos (Ind (df ! i)) = Num p6 \<and> DI6_neg (Ind (df ! i)) = Num m6 \<and>
        DI20_pos (Ind (df ! i)) = Num p20 \<and> DI20_neg (Ind (df ! i)) = Num m20 \<and>
        bb \<le> 35 \<and> 65 \<le> rsi \<and> rsi \<le> 100 \<and> - 20 \<le> willr \<and> willr \<le> 0 \<and>
        40 \<le> p6 \<and> m6 \<le> 12 \<and> 35 \<le> p20 \<and> m20 \<le> 15)) \<and>
    (PUT_ENTRY (apply_strategy df ! i) \<longleftrightarrow>
     (\<exists>bb rsi willr p6 m6 p20 m20.
        BB60 (Ind (df ! i)) = Num bb \<and> RSI20 (Ind (df ! i)) = Num rsi \<and>
        WILLR28 (Ind (df ! i)) = Num willr \<and>
        DI6_pos (Ind (df ! i)) = Num p6 \<and> DI6_neg (Ind (df ! i)) = Num m6 \<and>
        DI20_pos (Ind (df ! i)) = Num p20 \<and> DI20_neg (Ind (df ! i)) = Num m20 \<and>
        bb \<le> 35 \<and> 1 \<le> rsi \<and> rsi \<le> 40 \<and> - 100 \<le> willr \<and> willr \<le> - 80 \<and>
        35 \<le> m6 \<and> p6 \<le> 15 \<and> 30 \<le> m20 \<and> p20 \<le> 15))"
proof -
  have out: "apply_strategy df ! i = strategy_row (df ! i)"
    using assms by (rule apply_strategy_nth)
  show ?thesis
    unfolding out by (simp add: strategy_row_flags call_entry_iff put_entry_iff)
qed

theorem entry_flags_threshold_rules_witness:
  "0 < length [call_example, put_example] \<and>
   CALL_ENTRY (apply_strategy [call_example, put_example] ! 0) \<and>
   \<not> PUT_ENTRY (apply_strategy [call_example, put_example] ! 0)"
  using entry_flags_threshold_rules [of 0 "[call_example, put_example]"]
  by (simp add: call_example_def put_example_def blank_bar_def blank_indicators_def)



text \<open>
  C3. No row has both CALL_ENTRY and PUT_ENTRY true, whatever its indicator values
  (numbers on or off the boundaries, or missing): the RSI20 ranges [65, 100] and [1, 40]
  of the two predicates are disjoint.
\<close>

theorem entries_mutually_exclusive:
  assumes "i < length df"
  shows "\<not> (CALL_ENTRY (apply_strategy df ! i) \<and> PUT_ENTRY (apply_strategy df ! i))"
proof
  assume both: "CALL_ENTRY (apply_strategy df ! i) \<and> PUT_ENTRY (apply_strategy df ! i)"
  have out: "apply_strategy df ! i = strategy_row (df ! i)"
    using assms by (rule apply_strategy_nth)
  from both have "call_entry (Ind (df ! i))" and "put_entry (Ind (df ! i))"
    by (simp_all add: out strategy_row_flags)
  then have "between (RSI20 (Ind (df ! i))) 65 100" and "between (RSI20 (Ind (df ! i))) 1 40"
    by (simp_all add: call_entry_def put_entry_def)
  then obtain v w where "RSI20 (Ind (df ! i)) = Num v" "65 \<le> v"
    and "RSI20 (Ind (df ! i)) = Num w" "w \<le> 40"
    unfolding between_iff by blast
  then show False by simp
qed

theorem entries_mutually_exclusive_witness:
  "1 < length [call_example, put_example] \<and>
   \<not> (CALL_ENTRY (apply_strategy [call_example, put_example] ! 1) \<and>
      PUT_ENTRY (apply_strategy [call_example, put_example] ! 1)) \<and>
   PUT_ENTRY (apply_strategy [call_example, put_example] ! 1)"
  using entries_mutually_exclusive [of 1 "[call_example, put_example]"]
  by (simp add: call_example_def put_example_def blank_bar_def blank_indicators_def
      apply_strategy_def strategy_row_def put_entry_def between_def)

text \<open>
  C4, as stated, fails: in a row with +DI20 missing, close 100 and MA8 101, the CALL_EXIT
  predicate contains the missing input and is true.
\<close>

theorem undefined_input_exit_counterexample:
  "isna (DI20_pos (Ind nan_example)) \<and> map CALL_EXIT (apply_strategy [nan_example]) = [True]"
  by (simp add: nan_example_def blank_bar_def blank_indicators_def apply_strategy_def
      strategy_row_def call_exit_def di_diff_def isna_def)

text \<open>
  C4, amended. \<open>apply_strategy\<close> yields the four flags for every row and never raises. An
  entry flag is false whenever one of its seven inputs is missing. An exit flag is a
  disjunction: with +DI20 or -DI20 missing, CALL_EXIT is exactly close < MA8 and PUT_EXIT
  exactly close > MA8; with the close or MA8 missing, both are exactly
  |+DI20 - -DI20| < 10, the difference being the float64 difference the code computes.
\<close>

theorem undefined_input_flags:
  "length (apply_strategy df) = length df \<and>
   (\<forall>i < length df.
      (entry_input_undefined (Ind (df ! i)) \<longrightarrow>
         \<not> CALL_ENTRY (apply_strategy df ! i) \<and> \<not> PUT_ENTRY (apply_strategy df ! i)) \<and>
      (isna (DI20_pos (Ind (df ! i))) \<or> isna (DI20_neg (Ind (df ! i))) \<longrightarrow>
         (CALL_EXIT (apply_strategy df ! i) \<longleftrightarrow>
            (\<exists>c ma. Close (Bar (df ! i)) = Num c \<and> MA8 (Ind (df ! i)) = Num ma \<and> c < ma)) \<and>
         (PUT_EXIT (apply_strategy df ! i) \<longleftrightarrow>
            (\<exists>c ma. Close (Bar (df ! i)) = Num c \<and> MA8 (Ind (df ! i)) = Num ma \<and> c > ma))) \<and>
      (isna (Close (Bar (df ! i))) \<or> isna (MA8 (Ind (df ! i))) \<longrightarrow>
         (CALL_EXIT (apply_strategy df ! i) \<longleftrightarrow>
            (\<exists>p m. DI20_pos (Ind (df ! i)) = Num p \<and> DI20_neg (Ind (df ! i)) = Num m \<and> \<bar>float_sub p m\<bar> < 10)) \<and>
         (PUT_EXIT (apply_strategy df ! i) \<longleftrightarrow>
            (\<exists>p m. DI20_pos (Ind (df ! i)) = Num p \<and> DI20_neg (Ind (df ! i)) = Num m \<and> \<bar>float_sub p m\<bar> < 10))))"
proof -
  have len: "length (apply_strategy df) = length df"
    by (simp add: apply_strategy_def)
  have entry: "\<not> call_entry r \<and> \<not> put_entry r" if "entry_input_undefined r" for r
    using that unfolding entry_input_undefined_def isna_def call_entry_iff put_entry_iff
    by auto
  have di: "(call_exit r \<longleftrightarrow>
        (\<exists>c ma. Close (Bar r) = Num c \<and> MA8 (Ind r) = Num ma \<and> c < ma)) \<and>
      (put_exit r \<longleftrightarrow>
        (\<exists>c ma. Close (Bar r) = Num c \<and> MA8 (Ind r) = Num ma \<and> c > ma))"
    if "isna (DI20_pos (Ind r)) \<or> isna (DI20_neg (Ind r))" for r
    using that unfolding isna_def call_exit_iff put_exit_iff by auto
  have ma: "(call_exit r \<longleftrightarrow>
        (\<exists>p m. DI20_pos (Ind r) = Num p \<and> DI20_neg (Ind r) = Num m \<and> \<bar>float_sub p m\<bar> < 10)) \<and>
      (put_exit r \<longleftrightarrow>
        (\<exists>p m. DI20_pos (Ind r) = Num p \<and> DI20_neg (Ind r) = Num m \<and> \<bar>float_sub p m\<bar> < 10))"
    if "isna (Close (Bar r)) \<or> isna (MA8 (Ind r))" for r
    using that unfolding isna_def call_exit_iff put_exit_iff by auto
  show ?thesis
    using len entry di ma by (simp add: apply_strategy_nth strategy_row_flags)
qed

theorem undefined_input_flags_witness:
  "length (apply_strategy [nan_example, nan_close_example]) = 2 \<and>
   entry_input_undefined (Ind ([nan_example, nan_close_example] ! 0)) \<and>
   isna (DI20_pos (Ind ([nan_example, nan_close_example] ! 0))) \<and>
   isna (Close (Bar ([nan_example, nan_close_example] ! 1))) \<and>
   \<not> CALL_ENTRY (apply_strategy [nan_example, nan_close_example] ! 0) \<and>
   \<not> PUT_ENTRY (apply_strategy [nan_example, nan_close_example] ! 0) \<and>
   CALL_EXIT (apply_strategy [nan_example, nan_close_example] ! 0) \<and>
   \<not> PUT_EXIT (apply_strategy [nan_example, nan_close_example] ! 0) \<and>
   CALL_EXIT (apply_strategy [nan_example, nan_close_example] ! 1) \<and>
   PUT_EXIT (apply_strategy [nan_example, nan_close_example] ! 1)"
  using undefined_input_flags [of "[nan_example, nan_close_example]", THEN conjunct1]
    undefined_input_flags [of "[nan_example, nan_close_example]", THEN conjunct2, THEN spec, of 0]
    undefined_input_flags [of "[nan_example, nan_close_example]", THEN conjunct2, THEN spec, of 1]
  by (simp add: nan_example_def nan_close_example_def blank_bar_def blank_indicators_def
      entry_input_undefined_def isna_def float_sub_below_10)

text \<open>
  C9. In a row whose close, MA8, +DI20 and -DI20 are all numbers, both exit flags are false
  exactly when close = MA8 and |+DI20 - -DI20| \<open>\<ge>\<close> 10; when close differs from MA8 at
  least one exit flag is true; when |+DI20 - -DI20| < 10 both are true. The difference is
  the float64 difference the code computes, \<open>float_sub\<close>.
\<close>

theorem exit_flags_relation:
  assumes "i < length df"
    and "Close (Bar (df ! i)) = Num c" and "MA8 (Ind (df ! i)) = Num ma"
    and "DI20_pos (Ind (df ! i)) = Num p" and "DI20_neg (Ind (df ! i)) = Num m"
  shows "(\<not> CALL_EXIT (apply_strategy df ! i) \<and> \<not> PUT_EXIT (apply_strategy df ! i)
            \<longleftrightarrow> c = ma \<and> \<bar>float_sub p m\<bar> \<ge> 10) \<and>
         (c \<noteq> ma \<longrightarrow> CALL_EXIT (apply_strategy df ! i) \<or> PUT_EXIT (apply_strategy df ! i)) \<and>
         (\<bar>float_sub p m\<bar> < 10 \<longrightarrow> CALL_EXIT (apply_strategy df ! i) \<and> PUT_EXIT (apply_strategy df ! i))"
proof -
  have out: "apply_strategy df ! i = strategy_row (df ! i)"
    using assms(1) by (rule apply_strategy_nth)
  show ?thesis
    unfolding out strategy_row_flags call_exit_iff put_exit_iff using assms(2-5) by auto
qed

theorem exit_flags_relation_witness:
  "2 < length [call_example, near_example, rounding_example] \<and>
   Close (Bar ([call_example, near_example, rounding_example] ! 0)) = Num 100 \<and>
   MA8 (Ind ([call_example, near_example, rounding_example] ! 0)) = Num 100 \<and>
   DI20_pos (Ind ([call_example, near_example, rounding_example] ! 0)) = Num 35 \<and>
   DI20_neg (Ind ([call_example, near_example, rounding_example] ! 0)) = Num 15 \<and>
   \<not> CALL_EXIT (apply_strategy [call_example, near_example, rounding_example] ! 0) \<and>
   \<not> PUT_EXIT (apply_strategy [call_example, near_example, rounding_example] ! 0) \<and>
   Close (Bar ([call_example, near_example, rounding_example] ! 1)) = Num 102 \<and>
   MA8 (Ind ([call_example, near_example, rounding_example] ! 1)) = Num 101 \<and>
   DI20_pos (Ind ([call_example, near_example, rounding_example] ! 1)) = Num 20 \<and>
   DI20_neg (Ind ([call_example, near_example, rounding_example] ! 1)) = Num 15 \<and>
   CALL_EXIT (apply_strategy [call_example, near_example, rounding_example] ! 1) \<and>
   PUT_EXIT (apply_strategy [call_example, near_example, rounding_example] ! 1) \<and>
   Close (Bar ([call_example, near_example, rounding_example] ! 2)) = Num 100 \<and>
   MA8 (Ind ([call_example, near_example, rounding_example] ! 2)) = Num 100 \<and>
   DI20_pos (Ind ([call_example, near_example, rounding_example] ! 2))
     = Num (5685794529555251 / 2 ^ 49) \<and>
   DI20_neg (Ind ([call_example, near_example, rounding_example] ! 2))
     = Num (3602879701896397 / 2 ^ 55) \<and>
   \<not> CALL_EXIT (apply_strategy [call_example, near_example, rounding_example] ! 2) \<and>
   \<not> PUT_EXIT (apply_strategy [call_example, near_example, rounding_example] ! 2)"
  using exit_flags_relation [of 0 "[call_example, near_example, rounding_example]" 100 100 35 15]
    exit_flags_relation [of 1 "[call_example, near_example, rounding_example]" 102 101 20 15]
    exit_flags_relation [of 2 "[call_example, near_example, rounding_example]" 100 100
      "5685794529555251 / 2 ^ 49" "3602879701896397 / 2 ^ 55"]
  by (simp add: call_example_def near_example_def rounding_example_def blank_bar_def
      blank_indicators_def float_sub_below_10 float_sub_not_below_10)

section \<open>The aggregator\<close>

lemma Stock_tag_stock: "r \<in> set (tag_stock stock ind) \<Longrightarrow> Stock r = stock"
  by (auto simp: tag_stock_def)

lemma filter_tag_stock:
  "filter (\<lambda>r. Stock r = s) (tag_stock stock ind) = (if s = stock then tag_stock stock ind else [])"
  by (induction ind) (auto simp: tag_stock_def)

lemma length_tag_stock: "length (tag_stock stock (add_indicators ta raw)) = length raw"
  by (simp add: tag_stock_def add_indicators_def)

lemma collect_frames_rows:
  assumes "r \<in> set (concat (collect_frames download ta stocks))"
  shows "Stock r \<in> set stocks \<and>
    (\<exists>raw. fetch_data download (Stock r) = Some raw \<and> MIN_BARS \<le> length raw)"
  using assms
proof (induction stocks)
  case Nil
  then show ?case by simp
next
  case (Cons stock stocks)
  then show ?case
    by (auto split: option.splits if_splits dest: Stock_tag_stock)
qed

lemma collect_frames_skipped:
  assumes "s \<notin> set stocks \<or> fetch_data download s = None \<or>
           (\<exists>raw. fetch_data download s = Some raw \<and> length raw < MIN_BARS)"
  shows "filter (\<lambda>r. Stock r = s) (concat (collect_frames download ta stocks)) = []"
proof -
  have "Stock r \<noteq> s" if "r \<in> set (concat (collect_frames download ta stocks))" for r
    using collect_frames_rows [OF that] assms by auto
  then show ?thesis
    by (simp add: filter_empty_conv)
qed

lemma collect_frames_included:
  assumes "distinct stocks" and "s \<in> set stocks"
    and "fetch_data download s = Some raw" and "MIN_BARS \<le> length raw"
  shows "filter (\<lambda>r. Stock r = s) (concat (collect_frames download ta stocks))
           = tag_stock s (add_indicators ta raw)"
  using assms(1,2)
proof (induction stocks)
  case Nil
  then show ?case by simp
next
  case (Cons stock stocks)
  show ?case
  proof (cases "s = stock")
    case True
    then have "s \<notin> set stocks"
      using Cons.prems(1) by simp
    then have rest: "filter (\<lambda>r. Stock r = s) (concat (collect_frames download ta stocks)) = []"
      by (simp add: collect_frames_skipped)
    show ?thesis
      using True assms(3,4) rest by (simp add: filter_tag_stock)
  next
    case False
    then have "s \<in> set stocks" and "distinct stocks"
      using Cons.prems by simp_all
    then have "filter (\<lambda>r. Stock r = s) (concat (collect_frames download ta stocks))
           = tag_stock s (add_indicators ta raw)"
      using Cons.IH by simp
    then show ?thesis
      using False by (simp add: filter_tag_stock split: option.splits)
  qed
qed

lemma collect_frames_subset:
  assumes "s \<in> set stocks"
    and "fetch_data download s = Some raw" and "MIN_BARS \<le> length raw"
  shows "set (tag_stock s (add_indicators ta raw)) \<subseteq> set (concat (collect_frames download ta stocks))"
  using assms(1)
proof (induction stocks)
  case Nil
  then show ?case by simp
next
  case (Cons stock stocks)
  then show ?case
    using assms(2,3) by (cases "s = stock") (auto split: option.splits)
qed

lemma aggregate_no_valid_data:
  "aggregate download ta stocks = Inl NoValidData \<longleftrightarrow> collect_frames download ta stocks = []"
  by (simp add: aggregate_def Let_def)

lemma aggregate_Inr_iff:
  "aggregate download ta stocks = Inr table \<longleftrightarrow>
     collect_frames download ta stocks \<noteq> [] \<and> table = concat (collect_frames download ta stocks)"
  by (auto simp: aggregate_def Let_def)

lemma collect_frames_empty_iff:
  "collect_frames download ta stocks = [] \<longleftrightarrow>
     (\<forall>s \<in> set stocks. fetch_data download s = None \<or>
        (\<exists>raw. fetch_data download s = Some raw \<and> length raw < MIN_BARS))"
  by (induction stocks) (auto split: option.splits)

lemma fetch_demo:
  "fetch_data demo_download ''LONG'' = Some (replicate 160 demo_bar)"
  "fetch_data demo_download ''SHORT'' = Some (replicate 159 demo_bar)"
  "fetch_data demo_download ''GAPS'' = Some (replicate 159 demo_bar)"
  "fetch_data demo_download ''NONE'' = None"
  by (simp_all add: fetch_data_def demo_download_def dropna_def bar_has_na_def isna_def
      demo_bar_def blank_bar_def replicate_add [symmetric])

text \<open>
  C8. The fetched series of a symbol is its download without the rows that have a missing
  cell, or missing when the download is empty. A symbol whose download is empty, whose
  fetch is missing, or whose fetched series has fewer than 160 bars has no row in the
  aggregated table. A symbol of the scan list whose fetched series has at least 160 bars
  is included: the table exists and holds all its rows, one per bar, and (the scan list
  holding each symbol once) they are exactly the rows of the table tagged with it. The
  skipping is silent: the pipeline stops with "No valid data" only when every symbol of
  the scan list is skipped.
\<close>

theorem aggregator_min_bars:
  "(download s = [] \<or> fetch_data download s = None \<or>
      (\<exists>raw. fetch_data download s = Some raw \<and> length raw < 160)
        \<longrightarrow> (\<forall>table. aggregate download ta stocks = Inr table
              \<longrightarrow> filter (\<lambda>r. Stock r = s) table = [])) \<and>
   (s \<in> set stocks \<and> fetch_data download s = Some raw \<and> 160 \<le> length raw
        \<longrightarrow> (\<exists>table. aggregate download ta stocks = Inr table \<and>
              set (tag_stock s (add_indicators ta raw)) \<subseteq> set table \<and>
              length (tag_stock s (add_indicators ta raw)) = length raw \<and>
              (distinct stocks \<longrightarrow>
                 filter (\<lambda>r. Stock r = s) table = tag_stock s (add_indicators ta raw)))) \<and>
   (aggregate download ta stocks = Inl NoValidData \<longleftrightarrow>
      (\<forall>t \<in> set stocks. fetch_data download t = None \<or>
         (\<exists>raw. fetch_data download t = Some raw \<and> length raw < 160))) \<and>
   fetch_data download s = (if download s = [] then None else Some (dropna (download s)))"
proof -
  let ?table = "concat (collect_frames download ta stocks)"
  have empty: "fetch_data download s = None" if "download s = []"
    using that by (simp add: fetch_data_def)
  have skipped: "\<forall>table. aggregate download ta stocks = Inr table
              \<longrightarrow> filter (\<lambda>r. Stock r = s) table = []"
    if "download s = [] \<or> fetch_data download s = None \<or>
          (\<exists>raw. fetch_data download s = Some raw \<and> length raw < 160)"
  proof -
    have "filter (\<lambda>r. Stock r = s) ?table = []"
      using that empty by (intro collect_frames_skipped) (auto simp: MIN_BARS_def)
    then show ?thesis
      by (simp add: aggregate_Inr_iff)
  qed
  have included: "\<exists>table. aggregate download ta stocks = Inr table \<and>
              set (tag_stock s (add_indicators ta raw)) \<subseteq> set table \<and>
              length (tag_stock s (add_indicators ta raw)) = length raw \<and>
              (distinct stocks \<longrightarrow>
                 filter (\<lambda>r. Stock r = s) table = tag_stock s (add_indicators ta raw))"
    if "s \<in> set stocks \<and> fetch_data download s = Some raw \<and> 160 \<le> length raw"
  proof -
    from that have s: "s \<in> set stocks" and raw: "fetch_data download s = Some raw"
      and len: "MIN_BARS \<le> length raw"
      by (simp_all add: MIN_BARS_def)
    have "collect_frames download ta stocks \<noteq> []"
      using s raw len by (auto simp: collect_frames_empty_iff)
    then have agg: "aggregate download ta stocks = Inr ?table"
      by (simp add: aggregate_Inr_iff)
    have rows: "set (tag_stock s (add_indicators ta raw)) \<subseteq> set ?table \<and>
              length (tag_stock s (add_indicators ta raw)) = length raw \<and>
              (distinct stocks \<longrightarrow>
                 filter (\<lambda>r. Stock r = s) ?table = tag_stock s (add_indicators ta raw))"
      using collect_frames_subset [OF s raw len] collect_frames_included [OF _ s raw len]
      by (simp add: length_tag_stock)
    show ?thesis
      using agg rows by blast
  qed
  have none: "aggregate download ta stocks = Inl NoValidData \<longleftrightarrow>
      (\<forall>t \<in> set stocks. fetch_data download t = None \<or>
         (\<exists>raw. fetch_data download t = Some raw \<and> length raw < 160))"
    by (simp add: aggregate_no_valid_data collect_frames_empty_iff MIN_BARS_def)
  have fetch: "fetch_data download s = (if download s = [] then None else Some (dropna (download s)))"
    by (simp add: fetch_data_def Let_def)
  show ?thesis
    using skipped included none fetch by blast
qed

theorem aggregator_min_bars_witness:
  "aggregate demo_download demo_ta [''NONE'', ''SHORT'', ''LONG'', ''GAPS'']
     = Inr (tag_stock ''LONG'' (add_indicators demo_ta (replicate 160 demo_bar))) \<and>
   demo_download ''NONE'' = [] \<and>
   fetch_data demo_download ''SHORT'' = Some (replicate 159 demo_bar) \<and>
   length (demo_download ''GAPS'') = 160 \<and>
   fetch_data demo_download ''GAPS'' = Some (replicate 159 demo_bar) \<and>
   fetch_data demo_download ''LONG'' = Some (replicate 160 demo_bar) \<and>
   filter (\<lambda>r. Stock r = ''NONE'')
     (tag_stock ''LONG'' (add_indicators demo_ta (replicate 160 demo_bar))) = [] \<and>
   filter (\<lambda>r. Stock r = ''SHORT'')
     (tag_stock ''LONG'' (add_indicators demo_ta (replicate 160 demo_bar))) = [] \<and>
   filter (\<lambda>r. Stock r = ''GAPS'')
     (tag_stock ''LONG'' (add_indicators demo_ta (replicate 160 demo_bar))) = [] \<and>
   length (filter (\<lambda>r. Stock r = ''LONG'')
     (tag_stock ''LONG'' (add_indicators demo_ta (replicate 160 demo_bar)))) = 160 \<and>
   aggregate demo_download demo_ta [''NONE'', ''SHORT'', ''GAPS''] = Inl NoValidData"
proof -
  let ?raw = "replicate 160 demo_bar"
  let ?table = "tag_stock ''LONG'' (add_indicators demo_ta ?raw)"
  let ?stocks = "[''NONE'', ''SHORT'', ''LONG'', ''GAPS'']"
  note inst = aggregator_min_bars [where download = demo_download and ta = demo_ta and raw = ?raw]
  have "?table \<noteq> []"
    by (simp add: tag_stock_def add_indicators_def)
  then have agg: "aggregate demo_download demo_ta ?stocks = Inr ?table"
    by (simp add: aggregate_def fetch_demo MIN_BARS_def)
  have none: "demo_download ''NONE'' = []" and gaps: "length (demo_download ''GAPS'') = 160"
    by (simp_all add: demo_download_def)
  have skip_none: "filter (\<lambda>r. Stock r = ''NONE'') ?table = []"
    using inst [where s = "''NONE''" and stocks = ?stocks, THEN conjunct1] none agg by blast
  have skip_short: "filter (\<lambda>r. Stock r = ''SHORT'') ?table = []"
    using inst [where s = "''SHORT''" and stocks = ?stocks, THEN conjunct1] fetch_demo(2) agg
    by simp
  have skip_gaps: "filter (\<lambda>r. Stock r = ''GAPS'') ?table = []"
    using inst [where s = "''GAPS''" and stocks = ?stocks, THEN conjunct1] fetch_demo(3) agg
    by simp
  have "\<exists>table. aggregate demo_download demo_ta ?stocks = Inr table \<and>
      set ?table \<subseteq> set table \<and> length ?table = length ?raw \<and>
      (distinct ?stocks \<longrightarrow> filter (\<lambda>r. Stock r = ''LONG'') table = ?table)"
    using inst [where s = "''LONG''" and stocks = ?stocks, THEN conjunct2, THEN conjunct1]
      fetch_demo(1) by simp
  then have long: "length (filter (\<lambda>r. Stock r = ''LONG'') ?table) = 160"
    using agg by auto
  have all_skipped: "aggregate demo_download demo_ta [''NONE'', ''SHORT'', ''GAPS''] = Inl NoValidData"
    using inst [where s = "''NONE''" and stocks = "[''NONE'', ''SHORT'', ''GAPS'']",
        THEN conjunct2, THEN conjunct2, THEN conjunct1] fetch_demo
    by simp
  show ?thesis
    using agg none gaps fetch_demo skip_none skip_short skip_gaps long all_skipped
    by (intro conjI) assumption+
qed

section \<open>The order router\<close>

lemmas resolution_defs = get_atm_option_symbol_def get_nifty_spot_def get_current_expiry_def
  load_instruments_def then_do_def record_call_def nifty_expiries_def option_matches_def

lemma atm_10523: "atm_strike 10523 = 10500"
  by (simp add: atm_strike_def py_round_def Let_def)

lemma py_round_nearest: "\<bar>real_of_int (py_round x) - x\<bar> \<le> 1 / 2"
proof -
  have "real_of_int \<lfloor>x\<rfloor> \<le> x" and "x < real_of_int \<lfloor>x\<rfloor> + 1"
    by linarith+
  then show ?thesis
    by (auto simp: py_round_def Let_def)
qed

lemma atm_strike_nearest: "\<bar>real_of_int (atm_strike spot) - spot\<bar> \<le> 25"
  using py_round_nearest [of "spot / 50"] by (simp add: atm_strike_def field_simps)

lemma atm_strike_multiple: "50 dvd atm_strike spot"
  by (simp add: atm_strike_def)

lemma py_round_tie: "py_round (real_of_int n + 1 / 2) = (if even n then n else n + 1)"
proof -
  have "\<lfloor>real_of_int n + 1 / 2\<rfloor> = n"
    by linarith
  then show ?thesis
    by (simp add: py_round_def Let_def)
qed

lemma atm_strike_tie:
  "atm_strike (50 * real_of_int n + 25) = (if even n then 50 * n else 50 * n + 50)"
proof -
  have "(50 * real_of_int n + 25) / 50 = real_of_int n + 1 / 2"
    by simp
  then show ?thesis
    unfolding atm_strike_def by (simp only: py_round_tie) simp
qed

lemma hd_sorted_Min: "sorted xs \<Longrightarrow> xs \<noteq> [] \<Longrightarrow> hd xs = Min (set xs)"
  by (cases xs) (auto intro!: Min_eqI [symmetric])

lemma set_nifty_expiries:
  "set (nifty_expiries U) = ins_expiry ` {i \<in> set U. ins_name i = ''NIFTY''}"
  by (auto simp: nifty_expiries_def)

lemma sorted_nifty_expiries: "sorted (nifty_expiries U)"
  by (simp add: nifty_expiries_def)

lemma load_instruments_again:
  assumes "load_instruments k s = (Inr U, s')"
  shows "load_instruments k s' = (Inr U, s')"
  using assms by (auto simp: load_instruments_def split: option.splits sum.splits)

lemma get_current_expiry_Min:
  assumes "load_instruments k s = (Inr U, s')" and "\<exists>i \<in> set U. ins_name i = ''NIFTY''"
  shows "get_current_expiry k s = (Inr (earliest_nifty_expiry U), s')"
proof -
  from assms(2) have ne: "nifty_expiries U \<noteq> []"
    using set_nifty_expiries [of U] by auto
  then obtain e es where es: "nifty_expiries U = e # es"
    by (cases "nifty_expiries U") auto
  have "hd (nifty_expiries U) = earliest_nifty_expiry U"
    using hd_sorted_Min [OF sorted_nifty_expiries ne]
    by (simp add: nifty_expiries_def earliest_nifty_expiry_def)
  then have "e = earliest_nifty_expiry U"
    using es by simp
  then show ?thesis
    using assms(1) es by (simp add: get_current_expiry_def then_do_def)
qed

lemma spec_nearest_future_expiry_fresh:
  assumes "\<exists>i \<in> set U. ins_name i = ''NIFTY''"
    and "\<forall>i \<in> set U. ins_name i = ''NIFTY'' \<longrightarrow> today \<le> ins_expiry i"
  shows "spec_nearest_future_expiry today U = Some (earliest_nifty_expiry U)"
proof -
  let ?es = "map ins_expiry (filter (\<lambda>i. ins_name i = ''NIFTY'') U)"
  have all: "filter (\<lambda>e. today \<le> e) ?es = ?es"
    using assms(2) by (auto simp: filter_id_conv)
  have ne: "?es \<noteq> []"
    using assms(1) by (auto simp: filter_empty_conv)
  show ?thesis
    unfolding spec_nearest_future_expiry_def Let_def all earliest_nifty_expiry_def
    using ne by simp
qed

text \<open>
  C7, as stated, fails on the expiry: the module reads no clock and never refreshes its
  cache, so it takes the earliest expiry it has cached. A first resolution caches
  contracts of day 5 and day 12; a resolution in the same process on day 8 returns the
  contract of day 5, while the nearest future expiry is day 12.
\<close>

theorem stale_expiry_counterexample:
  "snd (get_atm_option_symbol demo_kite ''CALL'' initial_state) = stale_state \<and>
   fst (get_atm_option_symbol demo_kite ''CALL'' stale_state) = Inr ''NIFTY-D5-10500CE'' \<and>
   fst (get_current_expiry demo_kite stale_state) = Inr 5 \<and>
   spec_nearest_future_expiry 8 demo_universe = Some 12"
  by (simp add: resolution_defs demo_kite_def demo_universe_def stale_state_def initial_state_def
      atm_10523 spec_nearest_future_expiry_def)

text \<open>
  C7, amended. When the spot lookup answers and the instrument universe (cached, or
  fetched on the first use) holds a NIFTY contract, the resolution rounds the spot to a
  nearest multiple of 50 (10523 gives 10500), takes the earliest expiry among the cached
  NIFTY contracts (which is the nearest future expiry whenever no cached NIFTY contract
  has expired), returns the trading symbol of the first cached contract matching (NIFTY,
  expiry, strike, CE for CALL and PE otherwise), and fails with "Option symbol not found"
  if and only if no cached contract matches.
\<close>

theorem resolve_instrument:
  assumes "kite_ltp k (calls s) ''NSE:NIFTY 50'' = Inr quote"
    and "quote ''NSE:NIFTY 50'' = Some spot"
    and "load_instruments k (record_call (Ltp ''NSE:NIFTY 50'') s) = (Inr U, s')"
    and "\<exists>i \<in> set U. ins_name i = ''NIFTY''"
  shows "atm_strike 10523 = 10500 \<and>
    50 dvd atm_strike spot \<and>
    \<bar>real_of_int (atm_strike spot) - spot\<bar> \<le> 25 \<and>
    get_atm_option_symbol k side s =
      (case find (option_matches (earliest_nifty_expiry U)
                    (atm_strike spot) side) U of
         Some ins \<Rightarrow> (Inr (ins_tradingsymbol ins), s')
       | None \<Rightarrow> (Inl Option_symbol_not_found, s')) \<and>
    (fst (get_atm_option_symbol k side s) = Inl Option_symbol_not_found \<longleftrightarrow>
       \<not> (\<exists>ins \<in> set U.
            ins_name ins = ''NIFTY'' \<and>
            ins_expiry ins = earliest_nifty_expiry U \<and>
            ins_strike ins = real_of_int (atm_strike spot) \<and>
            ins_instrument_type ins = (if side = ''CALL'' then ''CE'' else ''PE''))) \<and>
    (\<forall>today. (\<forall>i \<in> set U. ins_name i = ''NIFTY'' \<longrightarrow> today \<le> ins_expiry i) \<longrightarrow>
       spec_nearest_future_expiry today U =
         Some (earliest_nifty_expiry U))"
proof -
  let ?s1 = "record_call (Ltp ''NSE:NIFTY 50'') s"
  let ?expiry = "earliest_nifty_expiry U"
  let ?found = "find (option_matches ?expiry (atm_strike spot) side) U"
  have spot: "get_nifty_spot k s = (Inr spot, ?s1)"
    using assms(1,2) by (simp add: get_nifty_spot_def)
  have expiry: "get_current_expiry k ?s1 = (Inr ?expiry, s')"
    using assms(3,4) by (rule get_current_expiry_Min)
  have again: "load_instruments k s' = (Inr U, s')"
    using assms(3) by (rule load_instruments_again)
  have run: "get_atm_option_symbol k side s =
      (case ?found of
         Some ins \<Rightarrow> (Inr (ins_tradingsymbol ins), s')
       | None \<Rightarrow> (Inl Option_symbol_not_found, s'))"
    by (simp add: get_atm_option_symbol_def then_do_def spot expiry again)
  have nf: "fst (get_atm_option_symbol k side s) = Inl Option_symbol_not_found \<longleftrightarrow> ?found = None"
    unfolding run by (simp split: option.splits)
  have none: "?found = None \<longleftrightarrow>
       \<not> (\<exists>ins \<in> set U.
            ins_name ins = ''NIFTY'' \<and> ins_expiry ins = ?expiry \<and>
            ins_strike ins = real_of_int (atm_strike spot) \<and>
            ins_instrument_type ins = (if side = ''CALL'' then ''CE'' else ''PE''))"
    unfolding find_None_iff option_matches_def by blast
  have fresh: "\<forall>today. (\<forall>i \<in> set U. ins_name i = ''NIFTY'' \<longrightarrow> today \<le> ins_expiry i) \<longrightarrow>
       spec_nearest_future_expiry today U = Some ?expiry"
    using spec_nearest_future_expiry_fresh [OF assms(4)] by blast
  have iff: "fst (get_atm_option_symbol k side s) = Inl Option_symbol_not_found \<longleftrightarrow>
       \<not> (\<exists>ins \<in> set U.
            ins_name ins = ''NIFTY'' \<and> ins_expiry ins = ?expiry \<and>
            ins_strike ins = real_of_int (atm_strike spot) \<and>
            ins_instrument_type ins = (if side = ''CALL'' then ''CE'' else ''PE''))"
    using nf none by (rule trans)
  note parts = atm_10523 atm_strike_multiple [of spot] atm_strike_nearest [of spot] run iff fresh
  show ?thesis
    by (intro conjI parts)
qed

theorem resolve_instrument_witness:
  "kite_ltp demo_kite (calls initial_state) ''NSE:NIFTY 50''
     = Inr (\<lambda>q. if q = ''NSE:NIFTY 50'' then Some 10523 else None) \<and>
   load_instruments demo_kite (record_call (Ltp ''NSE:NIFTY 50'') initial_state)
     = (Inr demo_universe,
        \<lparr>INSTRUMENTS = Some demo_universe, calls = [Ltp ''NSE:NIFTY 50'', Instruments ''NFO''], logged = []\<rparr>) \<and>
   get_atm_option_symbol demo_kite ''PUT'' initial_state
     = (Inr ''NIFTY-D5-10500PE'',
        \<lparr>INSTRUMENTS = Some demo_universe, calls = [Ltp ''NSE:NIFTY 50'', Instruments ''NFO''], logged = []\<rparr>) \<and>
   spec_nearest_future_expiry 4 demo_universe = Some 5"
proof -
  have ltp: "kite_ltp demo_kite (calls initial_state) ''NSE:NIFTY 50''
     = Inr (\<lambda>q. if q = ''NSE:NIFTY 50'' then Some 10523 else None)"
    by (simp add: demo_kite_def)
  have quote: "(\<lambda>q. if q = ''NSE:NIFTY 50'' then Some (10523::real) else None) ''NSE:NIFTY 50'' = Some 10523"
    by simp
  have load: "load_instruments demo_kite (record_call (Ltp ''NSE:NIFTY 50'') initial_state)
     = (Inr demo_universe,
        \<lparr>INSTRUMENTS = Some demo_universe, calls = [Ltp ''NSE:NIFTY 50'', Instruments ''NFO''], logged = []\<rparr>)"
    by (simp add: load_instruments_def record_call_def demo_kite_def initial_state_def)
  have nifty: "\<exists>i \<in> set demo_universe. ins_name i = ''NIFTY''"
    by (simp add: demo_universe_def)
  have expiry: "earliest_nifty_expiry demo_universe = 5"
    by (simp add: demo_universe_def earliest_nifty_expiry_def)
  have found: "find (option_matches 5 10500 ''PUT'') demo_universe
      = Some \<lparr>ins_name = ''NIFTY'', ins_expiry = 5, ins_strike = 10500, ins_instrument_type = ''PE'',
          ins_tradingsymbol = ''NIFTY-D5-10500PE''\<rparr>"
    by (simp add: demo_universe_def option_matches_def)
  have fresh: "\<forall>i \<in> set demo_universe. ins_name i = ''NIFTY'' \<longrightarrow> 4 \<le> ins_expiry i"
    by (simp add: demo_universe_def)
  from resolve_instrument [OF ltp quote load nifty, of "''PUT''"]
  have run: "get_atm_option_symbol demo_kite ''PUT'' initial_state =
      (case find (option_matches (earliest_nifty_expiry demo_universe) (atm_strike 10523) ''PUT'')
              demo_universe of
         Some ins \<Rightarrow> (Inr (ins_tradingsymbol ins),
            \<lparr>INSTRUMENTS = Some demo_universe, calls = [Ltp ''NSE:NIFTY 50'', Instruments ''NFO''], logged = []\<rparr>)
       | None \<Rightarrow> (Inl Option_symbol_not_found,
            \<lparr>INSTRUMENTS = Some demo_universe, calls = [Ltp ''NSE:NIFTY 50'', Instruments ''NFO''], logged = []\<rparr>))"
    and near: "spec_nearest_future_expiry 4 demo_universe = Some (earliest_nifty_expiry demo_universe)"
    using fresh by blast+
  show ?thesis
    using ltp load run near by (simp add: expiry atm_10523 found)
qed

text \<open>A universe without any NIFTY contract: the expiry selection reads the first of no
  expiries.\<close>

lemma index_error_no_nifty:
  "get_atm_option_symbol demo_kite ''CALL'' (initial_state\<lparr>INSTRUMENTS := Some []\<rparr>)
     = (Inl IndexError, \<lparr>INSTRUMENTS = Some [], calls = [Ltp ''NSE:NIFTY 50''], logged = []\<rparr>)"
  by (simp add: resolution_defs demo_kite_def initial_state_def)

text \<open>
  C10. The strike is rounded half to even: round(10525 / 50) = round(210.5) = 210, so
  the spot 10525 resolves to 10500, the lower of its two nearest strikes, while 10575
  resolves to 10600; a spot midway between 50 n and 50 (n + 1) resolves to the one whose
  quotient by 50 is even.
\<close>

theorem strike_round_half_even:
  "py_round (10525 / 50) = 210 \<and>
   atm_strike 10525 = 10500 \<and>
   atm_strike 10575 = 10600 \<and>
   (\<forall>n. atm_strike (50 * real_of_int n + 25) = (if even n then 50 * n else 50 * n + 50))"
proof -
  have a: "py_round (10525 / 50) = 210"
    by (simp add: py_round_def Let_def)
  have b: "atm_strike 10525 = 10500"
    by (simp add: atm_strike_def py_round_def Let_def)
  have c: "atm_strike 10575 = 10600"
    by (simp add: atm_strike_def py_round_def Let_def)
  have d: "\<forall>n. atm_strike (50 * real_of_int n + 25) = (if even n then 50 * n else 50 * n + 50)"
    using atm_strike_tie by blast
  show ?thesis
    by (intro conjI a b c d)
qed

theorem strike_round_half_even_witness:
  "atm_strike (50 * real_of_int 210 + 25) = 10500 \<and> atm_strike (50 * real_of_int 211 + 25) = 10600"
  using strike_round_half_even by simp

subsection \<open>Paper mode\<close>

lemma get_atm_option_symbol_calls_exact:
  "calls (snd (get_atm_option_symbol k side s)) =
     calls s @ Ltp ''NSE:NIFTY 50'' #
       (if INSTRUMENTS s = None \<and> (\<exists>spot. fst (get_nifty_spot k s) = Inr spot)
        then [Instruments ''NFO''] else [])"
  by (auto simp: resolution_defs split: sum.splits option.splits list.splits)

lemma place_entry_paper:
  assumes "\<not> AUTO_TRADE cfg"
  shows "place_entry k cfg side s =
     (case get_atm_option_symbol k side s of
        (Inl e, s') \<Rightarrow> (Inl e, s')
      | (Inr tsym, s') \<Rightarrow>
          (Inr \<lparr>status = ''paper'', symbol = tsym, order_id = None\<rparr>, info (PAPER_ENTRY tsym) s'))"
  using assms by (simp add: place_entry_def then_do_def)

lemma calls_info: "calls (info l s) = calls s"
  by (simp add: info_def)

text \<open>
  C5, as stated, fails for \<open>place_entry\<close>: it resolves the option symbol before it looks
  at the auto-trade flag. In paper mode, with a broker whose spot lookup raises, it has
  made a broker call and fails with the broker's exception.
\<close>

theorem paper_entry_broker_failure_counterexample:
  "\<not> AUTO_TRADE paper_config \<and>
   place_entry down_kite paper_config ''CALL'' initial_state =
     (Inl (KiteException ''timeout''),
      \<lparr>INSTRUMENTS = None, calls = [Ltp ''NSE:NIFTY 50''], logged = []\<rparr>)"
  by (simp add: place_entry_def resolution_defs down_kite_def paper_config_def initial_state_def)

text \<open>
  C5, amended. In paper mode \<open>exit_position\<close> makes no broker call and cannot fail.
  \<open>place_entry\<close> places no order, but it still resolves the instrument through the
  broker: it makes the spot lookup, then the instrument listing exactly when the lookup
  answered and nothing is cached, and no other call; it fails exactly when that resolution
  fails.
\<close>

theorem paper_mode_broker_calls:
  assumes "\<not> AUTO_TRADE cfg"
  shows "exit_position k cfg tsym qty s = (Inr (), info (PAPER_EXIT tsym) s) \<and>
    calls (snd (exit_position k cfg tsym qty s)) = calls s \<and>
    calls (snd (place_entry k cfg side s)) =
      calls s @ Ltp ''NSE:NIFTY 50'' #
        (if INSTRUMENTS s = None \<and> (\<exists>spot. fst (get_nifty_spot k s) = Inr spot)
         then [Instruments ''NFO''] else []) \<and>
    (\<forall>e. fst (place_entry k cfg side s) = Inl e \<longleftrightarrow> fst (get_atm_option_symbol k side s) = Inl e)"
proof -
  have ex: "exit_position k cfg tsym qty s = (Inr (), info (PAPER_EXIT tsym) s)"
    using assms by (simp add: exit_position_def)
  have ex_calls: "calls (snd (exit_position k cfg tsym qty s)) = calls s"
    unfolding ex by (simp add: calls_info)
  have same: "calls (snd (place_entry k cfg side s)) = calls (snd (get_atm_option_symbol k side s))"
    unfolding place_entry_paper [OF assms]
    by (simp add: calls_info split: prod.splits sum.splits)
  have pe_calls: "calls (snd (place_entry k cfg side s)) =
      calls s @ Ltp ''NSE:NIFTY 50'' #
        (if INSTRUMENTS s = None \<and> (\<exists>spot. fst (get_nifty_spot k s) = Inr spot)
         then [Instruments ''NFO''] else [])"
    unfolding same by (rule get_atm_option_symbol_calls_exact)
  have fails: "\<forall>e. fst (place_entry k cfg side s) = Inl e \<longleftrightarrow> fst (get_atm_option_symbol k side s) = Inl e"
    unfolding place_entry_paper [OF assms]
    by (simp split: prod.splits sum.splits)
  show ?thesis
    by (intro conjI ex ex_calls pe_calls fails)
qed

theorem paper_mode_broker_calls_witness:
  "\<not> AUTO_TRADE paper_config \<and>
   exit_position demo_kite paper_config ''NIFTY-D5-10500CE'' 50 initial_state =
     (Inr (), \<lparr>INSTRUMENTS = None, calls = [], logged = [PAPER_EXIT ''NIFTY-D5-10500CE'']\<rparr>) \<and>
   calls (snd (place_entry demo_kite paper_config ''CALL'' initial_state)) =
     [Ltp ''NSE:NIFTY 50'', Instruments ''NFO''] \<and>
   calls (snd (place_entry demo_kite paper_config ''CALL'' stale_state)) =
     [Ltp ''NSE:NIFTY 50'', Instruments ''NFO'', Ltp ''NSE:NIFTY 50''] \<and>
   calls (snd (place_entry down_kite paper_config ''CALL'' initial_state)) = [Ltp ''NSE:NIFTY 50''] \<and>
   fst (place_entry down_kite paper_config ''CALL'' initial_state) = Inl (KiteException ''timeout'')"
proof -
  have paper: "\<not> AUTO_TRADE paper_config"
    by (simp add: paper_config_def)
  have down: "fst (get_atm_option_symbol down_kite ''CALL'' initial_state) = Inl (KiteException ''timeout'')"
    by (simp add: resolution_defs down_kite_def initial_state_def)
  have spot: "fst (get_nifty_spot demo_kite s) = Inr 10523" for s
    by (simp add: get_nifty_spot_def demo_kite_def)
  have no_spot: "fst (get_nifty_spot down_kite s) = Inl (KiteException ''timeout'')" for s
    by (simp add: get_nifty_spot_def down_kite_def)
  show ?thesis
    using paper_mode_broker_calls [OF paper, of demo_kite "''NIFTY-D5-10500CE''" 50 initial_state "''CALL''"]
      paper_mode_broker_calls [OF paper, of demo_kite _ _ stale_state "''CALL''"]
      paper_mode_broker_calls [OF paper, of down_kite _ _ initial_state "''CALL''"]
      down paper spot no_spot
    by (simp add: info_def initial_state_def stale_state_def)
qed

subsection \<open>Auto exit\<close>

lemma exit_each_paper:
  assumes "\<not> AUTO_TRADE cfg"
  shows "exit_each k cfg ps s =
     (Inr (), s\<lparr>logged := logged s @ map (\<lambda>p. PAPER_EXIT (pos_tradingsymbol p)) ps\<rparr>)"
  using assms
  by (induction ps arbitrary: s) (simp_all add: exit_position_def info_def)

lemma exit_each_live:
  assumes "AUTO_TRADE cfg" and "\<forall>h ord. \<exists>oid. kite_place_order k h ord = Inr oid"
  shows "exit_each k cfg ps s =
     (Inr (), s\<lparr>calls := calls s @ map (sell_order cfg) ps,
                logged := logged s @ map (\<lambda>p. LIVE_EXIT (pos_tradingsymbol p)) ps\<rparr>)"
proof (induction ps arbitrary: s)
  case Nil
  show ?case by simp
next
  case (Cons p ps)
  let ?ord = "market_order cfg (pos_tradingsymbol p) TRANSACTION_TYPE_SELL \<bar>pos_quantity p\<bar>"
  from assms(2) obtain oid where oid: "kite_place_order k (calls s) ?ord = Inr oid"
    by blast
  have step: "exit_position k cfg (pos_tradingsymbol p) \<bar>pos_quantity p\<bar> s =
      (Inr (), info (LIVE_EXIT (pos_tradingsymbol p)) (record_call (Place_order ?ord) s))"
    using assms(1) oid by (simp add: exit_position_def then_do_def place_order_def)
  show ?case
    by (simp add: step Cons.IH info_def record_call_def sell_order_def)
qed

text \<open>
  C6, as stated, fails in paper mode: with two open positions of different symbols,
  \<open>auto_exit\<close> with a true signal makes the positions call and no other; it logs the two
  exits and sells nothing.
\<close>

theorem auto_exit_paper_counterexample:
  "auto_exit demo_kite paper_config True initial_state =
     (Inr (), \<lparr>INSTRUMENTS = None, calls = [Positions],
        logged = [PAPER_EXIT ''NIFTY-D5-10500CE'', PAPER_EXIT ''BANKNIFTY-D3-10500CE'']\<rparr>)"
  by (simp add: auto_exit_def then_do_def get_open_positions_def exit_position_def
      info_def record_call_def demo_kite_def demo_positions_def paper_config_def
      initial_state_def)

text \<open>
  C6, amended. \<open>auto_exit\<close> with a false signal does nothing. With a true signal and the
  positions call answering, it exits every position of non-zero quantity, in the order
  listed and whatever its symbol or side: in live mode, the broker accepting the orders,
  by one market sell of the position's absolute quantity each, and no other order; in
  paper mode by a log line each, with no order sent.
\<close>

theorem auto_exit_all_positions:
  "auto_exit k cfg False s = (Inr (), s) \<and>
   (kite_positions k (calls s) = Inr net \<longrightarrow>
      (AUTO_TRADE cfg \<and> (\<forall>h ord. \<exists>oid. kite_place_order k h ord = Inr oid) \<longrightarrow>
         fst (auto_exit k cfg True s) = Inr () \<and>
         calls (snd (auto_exit k cfg True s)) =
           calls s @ Positions # map (sell_order cfg) (filter (\<lambda>p. pos_quantity p \<noteq> 0) net)) \<and>
      (\<not> AUTO_TRADE cfg \<longrightarrow>
         fst (auto_exit k cfg True s) = Inr () \<and>
         calls (snd (auto_exit k cfg True s)) = calls s @ [Positions] \<and>
         logged (snd (auto_exit k cfg True s)) =
           logged s @ map (\<lambda>p. PAPER_EXIT (pos_tradingsymbol p)) (filter (\<lambda>p. pos_quantity p \<noteq> 0) net)))"
proof -
  have off: "auto_exit k cfg False s = (Inr (), s)"
    by (simp add: auto_exit_def)
  have on: "auto_exit k cfg True s =
      exit_each k cfg (filter (\<lambda>p. pos_quantity p \<noteq> 0) net) (record_call Positions s)"
    if "kite_positions k (calls s) = Inr net"
    using that by (simp add: auto_exit_def then_do_def get_open_positions_def)
  have live: "fst (auto_exit k cfg True s) = Inr () \<and>
         calls (snd (auto_exit k cfg True s)) =
           calls s @ Positions # map (sell_order cfg) (filter (\<lambda>p. pos_quantity p \<noteq> 0) net)"
    if "kite_positions k (calls s) = Inr net" and "AUTO_TRADE cfg"
      and "\<forall>h ord. \<exists>oid. kite_place_order k h ord = Inr oid"
    using that by (simp add: on exit_each_live record_call_def)
  have paper: "fst (auto_exit k cfg True s) = Inr () \<and>
         calls (snd (auto_exit k cfg True s)) = calls s @ [Positions] \<and>
         logged (snd (auto_exit k cfg True s)) =
           logged s @ map (\<lambda>p. PAPER_EXIT (pos_tradingsymbol p)) (filter (\<lambda>p. pos_quantity p \<noteq> 0) net)"
    if "kite_positions k (calls s) = Inr net" and "\<not> AUTO_TRADE cfg"
    using that by (simp add: on exit_each_paper record_call_def)
  show ?thesis
    using off live paper by blast
qed

theorem auto_exit_all_positions_witness:
  "auto_exit demo_kite live_config False initial_state = (Inr (), initial_state) \<and>
   kite_positions demo_kite (calls initial_state) = Inr demo_positions \<and>
   AUTO_TRADE live_config \<and>
   calls (snd (auto_exit demo_kite live_config True initial_state)) =
     [Positions,
      Place_order \<lparr>ord_variety = VARIETY_REGULAR, ord_exchange = ''NFO'',
        ord_tradingsymbol = ''NIFTY-D5-10500CE'', ord_transaction_type = TRANSACTION_TYPE_SELL,
        ord_quantity = 50, ord_product = ''MIS'', ord_order_type = ORDER_TYPE_MARKET\<rparr>,
      Place_order \<lparr>ord_variety = VARIETY_REGULAR, ord_exchange = ''NFO'',
        ord_tradingsymbol = ''BANKNIFTY-D3-10500CE'', ord_transaction_type = TRANSACTION_TYPE_SELL,
        ord_quantity = 25, ord_product = ''MIS'', ord_order_type = ORDER_TYPE_MARKET\<rparr>] \<and>
   calls (snd (auto_exit demo_kite paper_config True initial_state)) = [Positions]"
proof -
  have net: "kite_positions demo_kite (calls initial_state) = Inr demo_positions"
    by (simp add: demo_kite_def)
  have live: "AUTO_TRADE live_config" and paper: "\<not> AUTO_TRADE paper_config"
    by (simp_all add: live_config_def paper_config_def)
  have accepts: "\<forall>h ord. \<exists>oid. kite_place_order demo_kite h ord = Inr oid"
    by (simp add: demo_kite_def)
  show ?thesis
    using auto_exit_all_positions [of demo_kite live_config initial_state demo_positions]
      auto_exit_all_positions [of demo_kite paper_config initial_state demo_positions] net live paper accepts
    by (simp add: sell_order_def market_order_def demo_positions_def live_config_def initial_state_def)
qed

end
